theory Spec2Isabelle
  imports Complex_Main
begin

section \<open>JavaScript values\<close>

text \<open>
  \<^verbatim>\<open>OutputChannel.js\<close> is dynamically typed: its methods coerce their arguments with
  \<^verbatim>\<open>parseFloat\<close>, \<^verbatim>\<open>parseInt\<close>, \<^verbatim>\<open>Math.floor\<close>, \<^verbatim>\<open>isNaN\<close>, comparisons and
  truthiness tests. The model therefore works on a datatype of JavaScript values.

  Numbers are exact rationals together with \<^verbatim>\<open>NaN\<close> and the two infinities: the rounding
  of IEEE doubles and the sign of zero are not modelled. Strings are byte strings. Objects
  are plain property lists (no prototype chain, getters or \<^verbatim>\<open>valueOf\<close>); an array carries
  its elements only.
\<close>

datatype jsnum = Fin rat | NaN | PInf | NInf

datatype jsval =
    Undefined
  | Null
  | Bool bool
  | Num jsnum
  | Str string
  | Arr "jsval list"
  | Obj "(string \<times> jsval) list"

abbreviation N :: "rat \<Rightarrow> jsval" where
  "N r \<equiv> Num (Fin r)"

subsection \<open>Arithmetic and comparison of numbers\<close>

fun js_neg :: "jsnum \<Rightarrow> jsnum" where
  "js_neg (Fin a) = Fin (- a)"
| "js_neg NaN = NaN"
| "js_neg PInf = NInf"
| "js_neg NInf = PInf"

fun js_add :: "jsnum \<Rightarrow> jsnum \<Rightarrow> jsnum" where
  "js_add (Fin a) (Fin b) = Fin (a + b)"
| "js_add NaN y = NaN"
| "js_add x NaN = NaN"
| "js_add PInf NInf = NaN"
| "js_add NInf PInf = NaN"
| "js_add PInf y = PInf"
| "js_add x PInf = PInf"
| "js_add NInf y = NInf"
| "js_add x NInf = NInf"

definition js_sub :: "jsnum \<Rightarrow> jsnum \<Rightarrow> jsnum" where
  "js_sub x y = js_add x (js_neg y)"

text \<open>The sign of an infinite product or quotient; \<open>0 * Infinity\<close> is \<open>NaN\<close>.\<close>

definition signed_inf :: "rat \<Rightarrow> jsnum" where
  "signed_inf s = (if s = 0 then NaN else if 0 < s then PInf else NInf)"

fun js_mul :: "jsnum \<Rightarrow> jsnum \<Rightarrow> jsnum" where
  "js_mul (Fin a) (Fin b) = Fin (a * b)"
| "js_mul NaN y = NaN"
| "js_mul x NaN = NaN"
| "js_mul PInf (Fin b) = signed_inf b"
| "js_mul NInf (Fin b) = signed_inf (- b)"
| "js_mul (Fin a) PInf = signed_inf a"
| "js_mul (Fin a) NInf = signed_inf (- a)"
| "js_mul PInf PInf = PInf"
| "js_mul NInf NInf = PInf"
| "js_mul PInf NInf = NInf"
| "js_mul NInf PInf = NInf"

text \<open>
  The source divides by the constants 127 and 2 only. A zero divisor is treated as
  \<open>+0\<close>.
\<close>

fun js_div :: "jsnum \<Rightarrow> jsnum \<Rightarrow> jsnum" where
  "js_div (Fin a) (Fin b) = (if b = 0 then signed_inf a else Fin (a / b))"
| "js_div NaN y = NaN"
| "js_div x NaN = NaN"
| "js_div (Fin a) PInf = Fin 0"
| "js_div (Fin a) NInf = Fin 0"
| "js_div PInf (Fin b) = (if 0 \<le> b then PInf else NInf)"
| "js_div NInf (Fin b) = (if 0 \<le> b then NInf else PInf)"
| "js_div x y = NaN"

text \<open>Every comparison with \<open>NaN\<close> is false.\<close>

fun js_lt :: "jsnum \<Rightarrow> jsnum \<Rightarrow> bool" where
  "js_lt (Fin a) (Fin b) = (a < b)"
| "js_lt NaN y = False"
| "js_lt x NaN = False"
| "js_lt PInf y = False"
| "js_lt x NInf = False"
| "js_lt x PInf = True"
| "js_lt NInf y = True"

definition js_le :: "jsnum \<Rightarrow> jsnum \<Rightarrow> bool" where
  "js_le x y = (js_lt x y \<or> (x = y \<and> x \<noteq> NaN))"

definition js_gt :: "jsnum \<Rightarrow> jsnum \<Rightarrow> bool" where
  "js_gt x y = js_lt y x"

definition js_ge :: "jsnum \<Rightarrow> jsnum \<Rightarrow> bool" where
  "js_ge x y = js_le y x"

text \<open>\<^verbatim>\<open>Math.floor\<close>, and \<^verbatim>\<open>Math.round\<close>, which rounds a half towards \<open>+Infinity\<close>.\<close>

fun Math_floor :: "jsnum \<Rightarrow> jsnum" where
  "Math_floor (Fin a) = Fin (of_int \<lfloor>a\<rfloor>)"
| "Math_floor x = x"

fun Math_round :: "jsnum \<Rightarrow> jsnum" where
  "Math_round (Fin a) = Fin (of_int \<lfloor>a + 1 / 2\<rfloor>)"
| "Math_round x = x"

subsection \<open>The 32-bit integer operators\<close>

text \<open>
  \<^verbatim>\<open><<\<close>, \<^verbatim>\<open>>>\<close>, \<^verbatim>\<open>&\<close> and \<^verbatim>\<open>|\<close> convert their operands with \<open>ToInt32\<close>:
  truncation towards zero, then reduction modulo \<open>2^32\<close> into the signed range.
\<close>

definition trunc :: "rat \<Rightarrow> int" where
  "trunc a = (if 0 \<le> a then \<lfloor>a\<rfloor> else \<lceil>a\<rceil>)"

fun ToInt32 :: "jsnum \<Rightarrow> int" where
  "ToInt32 (Fin a) = signed_take_bit 31 (trunc a)"
| "ToInt32 x = 0"

definition js_shl :: "jsnum \<Rightarrow> nat \<Rightarrow> jsnum" where
  "js_shl x k = Fin (of_int (signed_take_bit 31 (push_bit k (ToInt32 x))))"

definition js_sar :: "jsnum \<Rightarrow> nat \<Rightarrow> jsnum" where
  "js_sar x k = Fin (of_int (drop_bit k (ToInt32 x)))"

definition js_band :: "jsnum \<Rightarrow> jsnum \<Rightarrow> jsnum" where
  "js_band x y = Fin (of_int (and (ToInt32 x) (ToInt32 y)))"

definition js_bor :: "jsnum \<Rightarrow> jsnum \<Rightarrow> jsnum" where
  "js_bor x y = Fin (of_int (or (ToInt32 x) (ToInt32 y)))"

subsection \<open>Numeric strings\<close>

text \<open>
  \<^verbatim>\<open>parseFloat\<close> and \<^verbatim>\<open>parseInt\<close> read the longest numeric prefix of a string after
  leading white space; \<open>ToNumber\<close> wants the whole trimmed string to be a numeric literal.
  White space is the ASCII white space.
\<close>

definition is_ws :: "char \<Rightarrow> bool" where
  "is_ws c = (c \<in> set [CHR '' '', CHR 0x09, CHR 0x0A, CHR 0x0B, CHR 0x0C, CHR 0x0D])"

definition dec_digit :: "char \<Rightarrow> nat option" where
  "dec_digit = map_of
     [(CHR ''0'', 0), (CHR ''1'', 1), (CHR ''2'', 2), (CHR ''3'', 3), (CHR ''4'', 4),
      (CHR ''5'', 5), (CHR ''6'', 6), (CHR ''7'', 7), (CHR ''8'', 8), (CHR ''9'', 9)]"

definition hex_digit :: "char \<Rightarrow> nat option" where
  "hex_digit c = (case dec_digit c of Some k \<Rightarrow> Some k | None \<Rightarrow> map_of
     [(CHR ''a'', 10), (CHR ''b'', 11), (CHR ''c'', 12), (CHR ''d'', 13), (CHR ''e'', 14),
      (CHR ''f'', 15), (CHR ''A'', 10), (CHR ''B'', 11), (CHR ''C'', 12), (CHR ''D'', 13),
      (CHR ''E'', 14), (CHR ''F'', 15)] c)"

definition radix_digit :: "nat \<Rightarrow> char \<Rightarrow> nat option" where
  "radix_digit b c = (case hex_digit c of Some k \<Rightarrow> (if k < b then Some k else None) | None \<Rightarrow> None)"

fun digits_prefix :: "(char \<Rightarrow> nat option) \<Rightarrow> string \<Rightarrow> nat list \<times> string" where
  "digits_prefix d [] = ([], [])"
| "digits_prefix d (c # cs) =
     (case d c of
        None \<Rightarrow> ([], c # cs)
      | Some k \<Rightarrow> (case digits_prefix d cs of (ks, r) \<Rightarrow> (k # ks, r)))"

definition digits_value :: "nat \<Rightarrow> nat list \<Rightarrow> nat" where
  "digits_value b ks = foldl (\<lambda>a k. a * b + k) 0 ks"

fun sign_prefix :: "string \<Rightarrow> rat \<times> string" where
  "sign_prefix [] = (1, [])"
| "sign_prefix (c # cs) =
     (if c = CHR ''+'' then (1, cs) else if c = CHR ''-'' then (- 1, cs) else (1, c # cs))"

text \<open>An exponent part counts only when at least one digit follows the \<open>e\<close> and the sign.\<close>

fun exponent_part :: "string \<Rightarrow> int \<times> string" where
  "exponent_part [] = (0, [])"
| "exponent_part (c # cs) =
     (if c = CHR ''e'' \<or> c = CHR ''E'' then
        (case sign_prefix cs of (sg, t) \<Rightarrow>
           (case digits_prefix dec_digit t of (ds, r) \<Rightarrow>
              if ds = [] then (0, c # cs)
              else ((if 0 < sg then 1 else - 1) * int (digits_value 10 ds), r)))
      else (0, c # cs))"

definition scale10 :: "rat \<Rightarrow> int \<Rightarrow> rat" where
  "scale10 m e = (if 0 \<le> e then m * 10 ^ nat e else m / 10 ^ nat (- e))"

text \<open>
  The longest prefix that is a \<open>StrDecimalLiteral\<close>, with the rest of the string:
  a sign, then \<open>Infinity\<close> or digits with an optional fraction and exponent.
\<close>

definition str_decimal :: "string \<Rightarrow> (jsnum \<times> string) option" where
  "str_decimal s =
     (case sign_prefix s of (sg, s1) \<Rightarrow>
        if take 8 s1 = ''Infinity'' then Some (if 0 < sg then PInf else NInf, drop 8 s1)
        else
          (case digits_prefix dec_digit s1 of (ip, s2) \<Rightarrow>
             (case (case s2 of
                      [] \<Rightarrow> ([], s2)
                    | c # t \<Rightarrow> if c = CHR ''.'' then digits_prefix dec_digit t else ([], s2))
              of (fp, s3) \<Rightarrow>
                if ip = [] \<and> fp = [] then None
                else
                  (case exponent_part s3 of (e, s4) \<Rightarrow>
                     Some (Fin (scale10
                        (sg * (of_nat (digits_value 10 ip)
                               + of_nat (digits_value 10 fp) / 10 ^ length fp)) e), s4)))))"

definition trim_left :: "string \<Rightarrow> string" where
  "trim_left s = dropWhile is_ws s"

definition trim :: "string \<Rightarrow> string" where
  "trim s = rev (dropWhile is_ws (rev (dropWhile is_ws s)))"

definition parseFloat_str :: "string \<Rightarrow> jsnum" where
  "parseFloat_str s = (case str_decimal (trim_left s) of None \<Rightarrow> NaN | Some (x, r) \<Rightarrow> x)"

text \<open>
  \<^verbatim>\<open>parseInt\<close> without a radix: base 16 after a \<open>0x\<close> prefix, base 10 otherwise.
\<close>

definition parseInt_str :: "string \<Rightarrow> jsnum" where
  "parseInt_str s =
     (case sign_prefix (trim_left s) of (sg, s1) \<Rightarrow>
        (let hex = (take 2 s1 = ''0x'' \<or> take 2 s1 = ''0X'');
             b = (if hex then 16 else 10);
             ds = fst (digits_prefix (radix_digit b) (if hex then drop 2 s1 else s1))
         in if ds = [] then NaN else Fin (sg * of_nat (digits_value b ds))))"

text \<open>
  \<open>StringToNumber\<close>: the empty string is 0; \<open>0x\<close>, \<open>0o\<close> and \<open>0b\<close> literals carry no
  sign; anything left over after a decimal literal gives \<open>NaN\<close>.
\<close>

definition radix_literal :: "nat \<Rightarrow> string \<Rightarrow> jsnum" where
  "radix_literal b s =
     (case digits_prefix (radix_digit b) s of (ds, r) \<Rightarrow>
        if ds = [] \<or> r \<noteq> [] then NaN else Fin (of_nat (digits_value b ds)))"

definition StringToNumber :: "string \<Rightarrow> jsnum" where
  "StringToNumber s =
     (let t = trim s; p = take 2 t in
      if t = [] then Fin 0
      else if p = ''0x'' \<or> p = ''0X'' then radix_literal 16 (drop 2 t)
      else if p = ''0o'' \<or> p = ''0O'' then radix_literal 8 (drop 2 t)
      else if p = ''0b'' \<or> p = ''0B'' then radix_literal 2 (drop 2 t)
      else (case str_decimal t of
              None \<Rightarrow> NaN
            | Some (x, r) \<Rightarrow> if r = [] then x else NaN))"

subsection \<open>Coercions\<close>

text \<open>
  \<open>ToNumber\<close>. An array is converted through its string form: the empty array and
  \<open>[undefined]\<close> read as the empty string, a one-element array as its element, a longer
  one contains a comma.
\<close>

fun ToNumber :: "jsval \<Rightarrow> jsnum" where
  "ToNumber Undefined = NaN"
| "ToNumber Null = Fin 0"
| "ToNumber (Bool b) = Fin (if b then 1 else 0)"
| "ToNumber (Num x) = x"
| "ToNumber (Str s) = StringToNumber s"
| "ToNumber (Obj ps) = NaN"
| "ToNumber (Arr []) = Fin 0"
| "ToNumber (Arr [Undefined]) = Fin 0"
| "ToNumber (Arr [Null]) = Fin 0"
| "ToNumber (Arr [Bool b]) = NaN"
| "ToNumber (Arr [x]) = ToNumber x"
| "ToNumber (Arr (x # y # zs)) = NaN"

text \<open>
  \<^verbatim>\<open>parseFloat\<close> and \<^verbatim>\<open>parseInt\<close> convert their argument to a string first. A number
  prints and reads back as itself; for an array only the first element matters, since a
  comma ends every numeric prefix.
\<close>

fun parseFloat :: "jsval \<Rightarrow> jsnum" where
  "parseFloat (Num x) = x"
| "parseFloat (Str s) = parseFloat_str s"
| "parseFloat (Arr (x # xs)) = parseFloat x"
| "parseFloat v = NaN"

text \<open>
  A number between \<open>10^-6\<close> and \<open>10^21\<close> prints in positional notation, so \<^verbatim>\<open>parseInt\<close>
  truncates it. Outside that range it prints in exponent notation (\<^verbatim>\<open>1e+21\<close>,
  \<^verbatim>\<open>1.5e-7\<close>) and \<^verbatim>\<open>parseInt\<close> reads its leading digit alone.
\<close>

fun first_digit :: "nat \<Rightarrow> nat" where
  "first_digit k = (if k < 10 then k else first_digit (k div 10))"

fun digit_count :: "nat \<Rightarrow> nat" where
  "digit_count k = (if k < 10 then 1 else Suc (digit_count (k div 10)))"

declare first_digit.simps [simp del] digit_count.simps [simp del]

text \<open>
  The first significant digit of a positive number. Below 1 the number is first scaled
  by a power of ten large enough to bring it above 1, which shifts the digits only.
\<close>

definition leading_digit :: "rat \<Rightarrow> nat" where
  "leading_digit a =
     (if a \<le> 0 then 0
      else if 1 \<le> a then first_digit (nat \<lfloor>a\<rfloor>)
      else first_digit (nat \<lfloor>a * 10 ^ digit_count (nat \<lceil>1 / a\<rceil>)\<rfloor>))"

definition parseInt_num :: "rat \<Rightarrow> jsnum" where
  "parseInt_num a =
     (if a = 0 then Fin 0
      else if 10 ^ 21 \<le> \<bar>a\<bar> \<or> \<bar>a\<bar> < 1 / 10 ^ 6
        then Fin (sgn a * of_nat (leading_digit \<bar>a\<bar>))
      else Fin (of_int (trunc a)))"

fun parseInt :: "jsval \<Rightarrow> jsnum" where
  "parseInt (Num (Fin a)) = parseInt_num a"
| "parseInt (Str s) = parseInt_str s"
| "parseInt (Arr (x # xs)) = parseInt x"
| "parseInt v = NaN"

text \<open>The global \<^verbatim>\<open>isNaN\<close> converts its argument to a number first.\<close>

definition isNaN :: "jsval \<Rightarrow> bool" where
  "isNaN v = (ToNumber v = NaN)"

text \<open>Truthiness, as tested by \<^verbatim>\<open>if\<close>, \<^verbatim>\<open>!\<close> and \<^verbatim>\<open>||\<close>.\<close>

fun truthy :: "jsval \<Rightarrow> bool" where
  "truthy Undefined = False"
| "truthy Null = False"
| "truthy (Bool b) = b"
| "truthy (Num (Fin a)) = (a \<noteq> 0)"
| "truthy (Num NaN) = False"
| "truthy (Num x) = True"
| "truthy (Str s) = (s \<noteq> [])"
| "truthy (Arr xs) = True"
| "truthy (Obj ps) = True"

text \<open>\<^verbatim>\<open>x || d\<close> on numbers, as in \<^verbatim>\<open>parseInt(value) || 0\<close>.\<close>

definition num_or :: "jsnum \<Rightarrow> jsnum \<Rightarrow> jsnum" where
  "num_or x d = (if truthy (Num x) then x else d)"

subsection \<open>Properties and array elements\<close>

text \<open>
  Reading a property of \<^verbatim>\<open>undefined\<close> or \<^verbatim>\<open>null\<close> throws a \<^verbatim>\<open>TypeError\<close>; a
  primitive has none of the properties the source reads, so the read gives
  \<^verbatim>\<open>undefined\<close>. The file is an ES module, hence strict: assigning to a property of a
  primitive throws a \<^verbatim>\<open>TypeError\<close>.
\<close>

datatype error = TypeError string | RangeError string | Error string

definition read_prop :: "jsval \<Rightarrow> string \<Rightarrow> jsval" where
  "read_prop v k =
     (case v of
        Obj ps \<Rightarrow> (case map_of ps k of None \<Rightarrow> Undefined | Some x \<Rightarrow> x)
      | _ \<Rightarrow> Undefined)"

definition get_prop :: "jsval \<Rightarrow> string \<Rightarrow> error + jsval" where
  "get_prop v k =
     (case v of
        Undefined \<Rightarrow> Inl (TypeError ''Cannot read properties of undefined'')
      | Null \<Rightarrow> Inl (TypeError ''Cannot read properties of null'')
      | _ \<Rightarrow> Inr (read_prop v k))"

fun update_prop :: "string \<Rightarrow> jsval \<Rightarrow> (string \<times> jsval) list \<Rightarrow> (string \<times> jsval) list" where
  "update_prop k x [] = [(k, x)]"
| "update_prop k x (p # ps) = (if fst p = k then (k, x) # ps else p # update_prop k x ps)"

definition set_prop :: "jsval \<Rightarrow> string \<Rightarrow> jsval \<Rightarrow> error + jsval" where
  "set_prop v k x =
     (case v of
        Obj ps \<Rightarrow> Inr (Obj (update_prop k x ps))
      | Undefined \<Rightarrow> Inl (TypeError ''Cannot set properties of undefined'')
      | Null \<Rightarrow> Inl (TypeError ''Cannot set properties of null'')
      | _ \<Rightarrow> Inl (TypeError ''Cannot create property''))"

text \<open>Reading past the end of an array gives \<^verbatim>\<open>undefined\<close>; writing there extends it.\<close>

definition nth_undef :: "jsval list \<Rightarrow> nat \<Rightarrow> jsval" where
  "nth_undef xs i = (if i < length xs then xs ! i else Undefined)"

definition store_nth :: "jsval list \<Rightarrow> nat \<Rightarrow> jsval \<Rightarrow> jsval list" where
  "store_nth xs i x =
     (if i < length xs then xs[i := x]
      else xs @ replicate (i - length xs) Undefined @ [x])"

definition index_key :: "nat \<Rightarrow> string" where
  "index_key i = (if i = 0 then ''0'' else ''1'')"

text \<open>\<^verbatim>\<open>v[i]\<close> and \<^verbatim>\<open>v[i] = x\<close> for the indices 0 and 1 the source uses.\<close>

definition get_index :: "jsval \<Rightarrow> nat \<Rightarrow> error + jsval" where
  "get_index v i =
     (case v of
        Arr xs \<Rightarrow> Inr (nth_undef xs i)
      | Str s \<Rightarrow> Inr (if i < length s then Str [s ! i] else Undefined)
      | _ \<Rightarrow> get_prop v (index_key i))"

definition set_index :: "jsval \<Rightarrow> nat \<Rightarrow> jsval \<Rightarrow> error + jsval" where
  "set_index v i x =
     (case v of
        Arr xs \<Rightarrow> Inr (Arr (store_nth xs i x))
      | _ \<Rightarrow> set_prop v (index_key i) x)"

text \<open>\<^verbatim>\<open>[].concat(data)\<close>: an array is spread, any other value becomes the one element.\<close>

definition concat_data :: "jsval \<Rightarrow> jsval list" where
  "concat_data v = (case v of Arr xs \<Rightarrow> xs | _ \<Rightarrow> [v])"

section \<open>Messages, failures and the collaborators\<close>

text \<open>
  A message is what \<^verbatim>\<open>this.output.send(status, data, timestamp)\<close> receives. The Output
  collaborator is modelled by the sequence of messages handed to it; what the transport
  does with them is outside the model. No method reads what was sent before, so a method
  is a function to its outcome: the error thrown, if any, and the messages handed over up
  to that point, in order.
\<close>

record message =
  statusByte :: int
  dataBytes :: "jsval list"
  timestamp :: jsval

type_synonym 'a eff = "(error + 'a) \<times> message list"

definition ok :: "'a \<Rightarrow> 'a eff" where
  "ok x = (Inr x, [])"

definition fail :: "error \<Rightarrow> 'a eff" where
  "fail e = (Inl e, [])"

definition lift :: "error + 'a \<Rightarrow> 'a eff" where
  "lift r = (r, [])"

text \<open>Sequencing: a throw ends the method and keeps the messages already handed over.\<close>

definition andThen :: "'a eff \<Rightarrow> ('a \<Rightarrow> 'b eff) \<Rightarrow> 'b eff" where
  "andThen m f =
     (case m of
        (Inl e, ms) \<Rightarrow> (Inl e, ms)
      | (Inr x, ms) \<Rightarrow> (case f x of (r, ms') \<Rightarrow> (r, ms @ ms')))"

fun forEach :: "'a list \<Rightarrow> ('a \<Rightarrow> unit eff) \<Rightarrow> unit eff" where
  "forEach [] f = ok ()"
| "forEach (x # xs) f = andThen (f x) (\<lambda>u. forEach xs f)"

definition failure :: "'a eff \<Rightarrow> error option" where
  "failure r = (case fst r of Inl e \<Rightarrow> Some e | Inr x \<Rightarrow> None)"

definition sent :: "'a eff \<Rightarrow> message list" where
  "sent r = snd r"

text \<open>
  The \<^verbatim>\<open>WebMidi\<close> singleton is imported from \<^verbatim>\<open>WebMidi.js\<close>, which is not among the
  sources. The channel uses its lookup tables, its time resolver and its note resolver;
  they are parameters of the model.
\<close>

datatype voice_message =
  noteoff | noteon | keyaftertouch | controlchange | channelmode
  | programchange | channelaftertouch | pitchbend

record midi_note =
  number :: jsval
  rawAttack :: jsval
  rawRelease :: jsval

record webmidi =
  MIDI_CHANNEL_VOICE_MESSAGES :: "voice_message \<Rightarrow> int"
  MIDI_CONTROL_CHANGE_MESSAGES :: "string \<rightharpoonup> int"
  MIDI_CHANNEL_MODE_MESSAGES :: "string \<rightharpoonup> int"
  MIDI_REGISTERED_PARAMETER :: "string \<rightharpoonup> int \<times> int"
  convertToTimestamp :: "jsval \<Rightarrow> jsval"
  getValidNoteArray :: "jsval \<Rightarrow> jsval \<Rightarrow> error + midi_note list"

text \<open>A default parameter \<^verbatim>\<open>options = {}\<close> replaces \<^verbatim>\<open>undefined\<close> only.\<close>

definition default_options :: "jsval \<Rightarrow> jsval" where
  "default_options options = (if options = Undefined then Obj [] else options)"

text \<open>\<^verbatim>\<open>(x << k)\<close> on an integer table entry.\<close>

definition shl32 :: "int \<Rightarrow> nat \<Rightarrow> int" where
  "shl32 x k = signed_take_bit 31 (push_bit k (signed_take_bit 31 x))"

section \<open>The channel's methods\<close>

text \<open>
  Every method takes the \<^verbatim>\<open>WebMidi\<close> collaborator \<open>W\<close> and the channel's
  \<^verbatim>\<open>this.number\<close> as \<open>ch\<close>. The private methods \<^verbatim>\<open>_selectRegisteredParameter\<close>,
  \<^verbatim>\<open>_selectNonRegisteredParameter\<close>, \<^verbatim>\<open>_setCurrentRegisteredParameter\<close> and
  \<^verbatim>\<open>_deselectRegisteredParameter\<close> are named without the underscore. A method that
  returns \<^verbatim>\<open>this\<close> returns the unit value; \<^verbatim>\<open>console.warn\<close> leaves no trace.
\<close>

definition send :: "int \<Rightarrow> jsval list \<Rightarrow> jsval \<Rightarrow> unit eff" where
  "send status data time = (Inr (), [\<lparr>statusByte = status, dataBytes = data, timestamp = time\<rparr>])"

definition setKeyAftertouch :: "webmidi \<Rightarrow> int \<Rightarrow> jsval \<Rightarrow> jsval \<Rightarrow> jsval \<Rightarrow> unit eff" where
  "setKeyAftertouch W ch note pressure0 options0 =
     (let options = default_options options0;
          pressure = parseFloat pressure0;
          pressure = (if pressure = NaN then Fin (1 / 2) else pressure)
      in andThen (lift (get_prop options ''useRawValue'')) (\<lambda>raw.
         let pressure = (if truthy raw then js_div pressure (Fin 127) else pressure) in
         if js_lt pressure (Fin 0) \<or> js_gt pressure (Fin 1)
         then fail (RangeError ''Pressure value must be between 0 and 1.'')
         else
           andThen (lift (getValidNoteArray W note Undefined)) (\<lambda>notes.
           forEach notes (\<lambda>n.
             andThen (lift (get_prop options ''time'')) (\<lambda>time.
             send (shl32 (MIDI_CHANNEL_VOICE_MESSAGES W keyaftertouch) 4 + (ch - 1))
               [number n, Num (Math_round (js_mul pressure (Fin 127)))]
               (convertToTimestamp W time))))))"

definition sendControlChange :: "webmidi \<Rightarrow> int \<Rightarrow> jsval \<Rightarrow> jsval \<Rightarrow> jsval \<Rightarrow> unit eff" where
  "sendControlChange W ch controller0 value options0 =
     (let options = default_options options0 in
      andThen
        (case controller0 of
           Str name \<Rightarrow>
             (case MIDI_CONTROL_CHANGE_MESSAGES W name of
                None \<Rightarrow> fail (TypeError ''Invalid controller name.'')
              | Some c \<Rightarrow> ok (N (of_int c)))
         | _ \<Rightarrow>
             (let controller = Math_floor (ToNumber controller0) in
              if \<not> (js_ge controller (Fin 0) \<and> js_le controller (Fin 119))
              then fail (RangeError ''Controller numbers must be between 0 and 119.'')
              else ok (Num controller)))
        (\<lambda>controller.
           andThen (lift (get_prop options ''time'')) (\<lambda>time.
           send (shl32 (MIDI_CHANNEL_VOICE_MESSAGES W controlchange) 4 + (ch - 1))
             [controller, value]
             (convertToTimestamp W time))))"

definition selectNonRegisteredParameter :: "webmidi \<Rightarrow> int \<Rightarrow> jsval \<Rightarrow> jsval \<Rightarrow> unit eff" where
  "selectNonRegisteredParameter W ch parameter0 time =
     andThen (lift (get_index parameter0 0)) (\<lambda>p0.
     andThen (lift (set_index parameter0 0 (Num (Math_floor (ToNumber p0))))) (\<lambda>parameter1.
     andThen (lift (get_index parameter1 0)) (\<lambda>b0.
     if \<not> (js_ge (ToNumber b0) (Fin 0) \<and> js_le (ToNumber b0) (Fin 127))
     then fail (RangeError ''The control63 value must be between 0 and 127.'')
     else
       andThen (lift (get_index parameter1 1)) (\<lambda>p1.
       andThen (lift (set_index parameter1 1 (Num (Math_floor (ToNumber p1))))) (\<lambda>parameter.
       andThen (lift (get_index parameter 1)) (\<lambda>b1.
       if \<not> (js_ge (ToNumber b1) (Fin 0) \<and> js_le (ToNumber b1) (Fin 127))
       then fail (RangeError ''The control62 value must be between 0 and 127.'')
       else
         andThen (lift (get_index parameter 0)) (\<lambda>c0.
         andThen (sendControlChange W ch (N 0x63) c0 (Obj [(''time'', time)])) (\<lambda>u.
         andThen (lift (get_index parameter 1)) (\<lambda>c1.
         sendControlChange W ch (N 0x62) c1 (Obj [(''time'', time)]))))))))))"

definition deselectRegisteredParameter :: "webmidi \<Rightarrow> int \<Rightarrow> jsval \<Rightarrow> unit eff" where
  "deselectRegisteredParameter W ch time =
     andThen (sendControlChange W ch (N 0x65) (N 0x7F) (Obj [(''time'', time)])) (\<lambda>u.
     sendControlChange W ch (N 0x64) (N 0x7F) (Obj [(''time'', time)]))"

definition selectRegisteredParameter :: "webmidi \<Rightarrow> int \<Rightarrow> jsval \<Rightarrow> jsval \<Rightarrow> unit eff" where
  "selectRegisteredParameter W ch parameter0 time =
     andThen (lift (get_index parameter0 0)) (\<lambda>p0.
     andThen (lift (set_index parameter0 0 (Num (Math_floor (ToNumber p0))))) (\<lambda>parameter1.
     andThen (lift (get_index parameter1 0)) (\<lambda>b0.
     if \<not> (js_ge (ToNumber b0) (Fin 0) \<and> js_le (ToNumber b0) (Fin 127))
     then fail (RangeError ''The control65 value must be between 0 and 127'')
     else
       andThen (lift (get_index parameter1 1)) (\<lambda>p1.
       andThen (lift (set_index parameter1 1 (Num (Math_floor (ToNumber p1))))) (\<lambda>parameter.
       andThen (lift (get_index parameter 1)) (\<lambda>b1.
       if \<not> (js_ge (ToNumber b1) (Fin 0) \<and> js_le (ToNumber b1) (Fin 127))
       then fail (RangeError ''The control64 value must be between 0 and 127'')
       else
         andThen (lift (get_index parameter 0)) (\<lambda>c0.
         andThen (sendControlChange W ch (N 0x65) c0 (Obj [(''time'', time)])) (\<lambda>u.
         andThen (lift (get_index parameter 1)) (\<lambda>c1.
         sendControlChange W ch (N 0x64) c1 (Obj [(''time'', time)]))))))))))"

definition setCurrentRegisteredParameter :: "webmidi \<Rightarrow> int \<Rightarrow> jsval \<Rightarrow> jsval \<Rightarrow> unit eff" where
  "setCurrentRegisteredParameter W ch data0 time =
     (let data1 = concat_data data0;
          data = store_nth data1 0 (Num (parseInt (nth_undef data1 0)));
          msb = nth_undef data 0
      in if \<not> isNaN msb \<and> js_ge (ToNumber msb) (Fin 0) \<and> js_le (ToNumber msb) (Fin 127)
         then
           andThen (sendControlChange W ch (N 0x06) msb (Obj [(''time'', time)])) (\<lambda>u.
           if length data < 2 then ok ()
           else
             (let lsb = Num (parseInt (nth_undef data 1)) in
              if \<not> isNaN lsb \<and> js_ge (ToNumber lsb) (Fin 0) \<and> js_le (ToNumber lsb) (Fin 127)
              then sendControlChange W ch (N 0x26) lsb (Obj [(''time'', time)])
              else fail (RangeError ''The lsb value must be between 0 and 127.'')))
         else fail (RangeError ''The msb value must be between 0 and 127.''))"

text \<open>
  \<^verbatim>\<open>WebMidi.MIDI_REGISTERED_PARAMETER[parameter]\<close> for a parameter that is not an array.
  The method documents \<^verbatim>\<open>parameter\<close> as a name or an array of numbers; a value that is
  neither is no key of the table. An entry is a two-element array, hence truthy.
\<close>

definition registered_parameter :: "webmidi \<Rightarrow> jsval \<Rightarrow> jsval option" where
  "registered_parameter W parameter =
     (case parameter of
        Str name \<Rightarrow>
          (case MIDI_REGISTERED_PARAMETER W name of
             None \<Rightarrow> None
           | Some (a, b) \<Rightarrow> Some (Arr [N (of_int a), N (of_int b)]))
      | _ \<Rightarrow> None)"

fun isArray :: "jsval \<Rightarrow> bool" where
  "isArray (Arr xs) = True"
| "isArray v = False"

text \<open>
  The next methods pass \<^verbatim>\<open>this.number\<close> where the callee expects its \<^verbatim>\<open>time\<close> or
  \<^verbatim>\<open>options\<close>, and pass more arguments than the callee takes. The model passes what
  the callee receives; an extra argument is still evaluated before the call, so its read
  of \<^verbatim>\<open>options.time\<close> is kept.
\<close>

definition decrementRegisteredParameter :: "webmidi \<Rightarrow> int \<Rightarrow> jsval \<Rightarrow> jsval \<Rightarrow> unit eff" where
  "decrementRegisteredParameter W ch parameter0 options0 =
     (let options = default_options options0 in
      andThen
        (if \<not> isArray parameter0 then
           (case registered_parameter W parameter0 of
              None \<Rightarrow> fail (TypeError ''The specified parameter is not available.'')
            | Some p \<Rightarrow> ok p)
         else ok parameter0)
        (\<lambda>parameter.
           andThen (lift (get_prop options ''time'')) (\<lambda>unused.
           andThen (selectRegisteredParameter W ch parameter (N (of_int ch))) (\<lambda>u.
           andThen (lift (get_prop options ''time'')) (\<lambda>unused.
           andThen (sendControlChange W ch (N 0x61) (N 0) (N (of_int ch))) (\<lambda>u.
           andThen (lift (get_prop options ''time'')) (\<lambda>time.
           deselectRegisteredParameter W ch time)))))))"

definition incrementRegisteredParameter :: "webmidi \<Rightarrow> int \<Rightarrow> jsval \<Rightarrow> jsval \<Rightarrow> unit eff" where
  "incrementRegisteredParameter W ch parameter0 options0 =
     (let options = default_options options0 in
      andThen
        (if \<not> isArray parameter0 then
           (case registered_parameter W parameter0 of
              None \<Rightarrow> fail (Error ''The specified parameter is not available.'')
            | Some p \<Rightarrow> ok p)
         else ok parameter0)
        (\<lambda>parameter.
           andThen (lift (get_prop options ''time'')) (\<lambda>time.
           andThen (selectRegisteredParameter W ch parameter time) (\<lambda>u.
           andThen (lift (get_prop options ''time'')) (\<lambda>time.
           andThen (sendControlChange W ch (N 0x60) (N 0) (Obj [(''time'', time)])) (\<lambda>u.
           andThen (lift (get_prop options ''time'')) (\<lambda>time.
           deselectRegisteredParameter W ch time)))))))"

text \<open>
  \<^verbatim>\<open>sendNoteOn\<close> and \<^verbatim>\<open>sendNoteOff\<close> write the deprecated options into the options
  object they were given, and \<^verbatim>\<open>playNote\<close> hands the same object to both. The model
  returns the object as the method leaves it.
\<close>

definition sendNoteOff :: "webmidi \<Rightarrow> int \<Rightarrow> jsval \<Rightarrow> jsval \<Rightarrow> jsval eff" where
  "sendNoteOff W ch note options0 =
     andThen (lift (get_prop options0 ''rawVelocity'')) (\<lambda>rawVelocity.
     andThen
       (if truthy rawVelocity then
          andThen (lift (get_prop options0 ''velocity'')) (\<lambda>velocity.
          lift (set_prop options0 ''rawRelease'' velocity))
        else ok options0)
       (\<lambda>options1.
     andThen (lift (get_prop options1 ''velocity'')) (\<lambda>velocity.
     andThen
       (if truthy velocity then lift (set_prop options1 ''release'' velocity) else ok options1)
       (\<lambda>options2.
     let options = (if truthy options2 then options2 else Obj []) in
     andThen (lift (get_prop options ''rawRelease'')) (\<lambda>rawRelease0.
     andThen (lift (get_prop options ''release'')) (\<lambda>release.
     let nVelocity =
          (if truthy rawRelease0 then
             (if \<not> isNaN rawRelease0 \<and> js_ge (ToNumber rawRelease0) (Fin 0)
                 \<and> js_le (ToNumber rawRelease0) (Fin 127)
              then rawRelease0 else N 64)
           else
             (if \<not> isNaN release \<and> js_ge (ToNumber release) (Fin 0)
                 \<and> js_le (ToNumber release) (Fin 1)
              then Num (js_mul (ToNumber release) (Fin 127)) else N 64))
     in
     andThen (lift (getValidNoteArray W note (Obj [(''rawRelease'', nVelocity)]))) (\<lambda>notes.
     andThen
       (forEach notes (\<lambda>n.
          andThen (lift (get_prop options ''time'')) (\<lambda>time.
          send (shl32 (MIDI_CHANNEL_VOICE_MESSAGES W noteoff) 4 + (ch - 1))
            [number n, rawRelease n]
            (convertToTimestamp W time))))
       (\<lambda>u. ok options2))))))))"

definition stopNote :: "webmidi \<Rightarrow> int \<Rightarrow> jsval \<Rightarrow> jsval \<Rightarrow> jsval eff" where
  "stopNote W ch note options = sendNoteOff W ch note options"

definition sendNoteOn :: "webmidi \<Rightarrow> int \<Rightarrow> jsval \<Rightarrow> jsval \<Rightarrow> jsval eff" where
  "sendNoteOn W ch note options0 =
     (let options1 = default_options options0 in
      andThen (lift (get_prop options1 ''rawVelocity'')) (\<lambda>rawVelocity.
      andThen
        (if truthy rawVelocity then
           andThen (lift (get_prop options1 ''velocity'')) (\<lambda>velocity.
           andThen (lift (set_prop options1 ''rawAttack'' velocity)) (\<lambda>options2.
           andThen (lift (get_prop options2 ''release'')) (\<lambda>release.
           lift (set_prop options2 ''rawRelease'' release))))
         else ok options1)
        (\<lambda>options3.
      andThen (lift (get_prop options3 ''velocity'')) (\<lambda>velocity.
      andThen
        (if truthy velocity then lift (set_prop options3 ''attack'' velocity) else ok options3)
        (\<lambda>options.
      andThen (lift (get_prop options ''rawAttack'')) (\<lambda>rawAttack0.
      andThen (lift (get_prop options ''attack'')) (\<lambda>attack.
      let nVelocity =
           (if truthy rawAttack0 then
              (if \<not> isNaN attack \<and> js_ge (ToNumber attack) (Fin 0)
                  \<and> js_le (ToNumber attack) (Fin 127)
               then attack else N 64)
            else
              (if \<not> isNaN attack \<and> js_ge (ToNumber attack) (Fin 0)
                  \<and> js_le (ToNumber attack) (Fin 1)
               then Num (js_mul (ToNumber attack) (Fin 127)) else N 64))
      in
      andThen (lift (getValidNoteArray W note (Obj [(''rawAttack'', nVelocity)]))) (\<lambda>notes.
      andThen
        (forEach notes (\<lambda>n.
           andThen (lift (get_prop options ''time'')) (\<lambda>time.
           send (shl32 (MIDI_CHANNEL_VOICE_MESSAGES W noteon) 4 + (ch - 1))
             [number n, rawAttack n]
             (convertToTimestamp W time))))
        (\<lambda>u. ok options)))))))))"

definition playNote :: "webmidi \<Rightarrow> int \<Rightarrow> jsval \<Rightarrow> jsval \<Rightarrow> unit eff" where
  "playNote W ch note options0 =
     andThen (sendNoteOn W ch note (default_options options0)) (\<lambda>options.
     andThen (lift (get_prop options ''duration'')) (\<lambda>duration.
     if \<not> isNaN duration
     then andThen (sendNoteOff W ch note options) (\<lambda>left. ok ())
     else ok ()))"

definition sendChannelMode :: "webmidi \<Rightarrow> int \<Rightarrow> jsval \<Rightarrow> jsval \<Rightarrow> jsval \<Rightarrow> unit eff" where
  "sendChannelMode W ch command0 value0 options0 =
     (let options = default_options options0;
          command =
            (case command0 of
               Str name \<Rightarrow>
                 (case MIDI_CHANNEL_MODE_MESSAGES W name of
                    None \<Rightarrow> Undefined
                  | Some c \<Rightarrow> N (of_int c))
             | _ \<Rightarrow> Num (parseInt command0))
      in if isNaN command
            \<or> \<not> (js_ge (ToNumber command) (Fin 120) \<and> js_le (ToNumber command) (Fin 127))
         then fail (TypeError ''Invalid channel mode message name or number.'')
         else
           (let value = num_or (parseInt value0) (Fin 0) in
            if js_lt value (Fin 0) \<or> js_gt value (Fin 127)
            then fail (RangeError ''Value must be an integer between 0 and 127.'')
            else
              andThen (lift (get_prop options ''time'')) (\<lambda>time.
              send (shl32 (MIDI_CHANNEL_VOICE_MESSAGES W channelmode) 4 + (ch - 1))
                [command, Num value]
                (convertToTimestamp W time))))"

definition setOmniMode :: "webmidi \<Rightarrow> int \<Rightarrow> jsval \<Rightarrow> jsval \<Rightarrow> unit eff" where
  "setOmniMode W ch state options0 =
     (let options = default_options options0 in
      if state = Undefined \<or> truthy state
      then sendChannelMode W ch (Str ''omnimodeon'') (N 0) options
      else sendChannelMode W ch (Str ''omnimodeoff'') (N 0) options)"

definition setChannelAftertouch :: "webmidi \<Rightarrow> int \<Rightarrow> jsval \<Rightarrow> jsval \<Rightarrow> unit eff" where
  "setChannelAftertouch W ch pressure0 options0 =
     (let options = default_options options0;
          pressure = parseFloat pressure0;
          pressure = (if pressure = NaN then Fin (1 / 2) else pressure)
      in andThen (lift (get_prop options ''rawValue'')) (\<lambda>raw.
         let pressure = (if truthy raw then js_div pressure (Fin 127) else pressure) in
         if js_lt pressure (Fin 0) \<or> js_gt pressure (Fin 1)
         then fail (RangeError ''Pitch bend value must be between 0 and 1.'')
         else
           andThen (lift (get_prop options ''time'')) (\<lambda>time.
           send (shl32 (MIDI_CHANNEL_VOICE_MESSAGES W channelaftertouch) 4 + (ch - 1))
             [Num (Math_round (js_mul pressure (Fin 127)))]
             (convertToTimestamp W time))))"

definition setRegisteredParameter :: "webmidi \<Rightarrow> int \<Rightarrow> jsval \<Rightarrow> jsval \<Rightarrow> jsval \<Rightarrow> unit eff" where
  "setRegisteredParameter W ch parameter0 data options0 =
     (let options = default_options options0 in
      andThen
        (if \<not> isArray parameter0 then
           (case registered_parameter W parameter0 of
              None \<Rightarrow> fail (Error ''The specified parameter is not available.'')
            | Some p \<Rightarrow> ok p)
         else ok parameter0)
        (\<lambda>parameter.
           andThen (lift (get_prop options ''time'')) (\<lambda>unused.
           andThen (selectRegisteredParameter W ch parameter (N (of_int ch))) (\<lambda>u.
           andThen (lift (get_prop options ''time'')) (\<lambda>unused.
           andThen (setCurrentRegisteredParameter W ch data (N (of_int ch))) (\<lambda>u.
           andThen (lift (get_prop options ''time'')) (\<lambda>time.
           deselectRegisteredParameter W ch time)))))))"

definition setMasterTuning :: "webmidi \<Rightarrow> int \<Rightarrow> jsval \<Rightarrow> jsval \<Rightarrow> unit eff" where
  "setMasterTuning W ch value0 options0 =
     (let options = default_options options0;
          value = num_or (parseFloat value0) (Fin 0)
      in if js_le value (Fin (- 65)) \<or> js_ge value (Fin 64)
         then fail (RangeError
           ''The value must be a decimal number larger than -65 and smaller than 64.'')
         else
           (let coarse = js_add (Math_floor value) (Fin 64);
                fine0 = js_sub value (Math_floor value);
                fine = Math_round (js_mul (js_div (js_add fine0 (Fin 1)) (Fin 2)) (Fin 16383));
                msb = js_band (js_sar fine 7) (Fin 0x7F);
                lsb = js_band fine (Fin 0x7F)
            in andThen (lift (get_prop options ''time'')) (\<lambda>time.
               andThen (setRegisteredParameter W ch (Str ''channelcoarsetuning'') (Num coarse)
                          (Obj [(''time'', time)])) (\<lambda>u.
               andThen (lift (get_prop options ''time'')) (\<lambda>time.
               setRegisteredParameter W ch (Str ''channelfinetuning'') (Arr [Num msb, Num lsb])
                 (Obj [(''time'', time)]))))))"

definition setModulationRange :: "webmidi \<Rightarrow> int \<Rightarrow> jsval \<Rightarrow> jsval \<Rightarrow> jsval \<Rightarrow> unit eff" where
  "setModulationRange W ch semitones cents options0 =
     (let options = default_options options0 in
      andThen (lift (get_prop options ''time'')) (\<lambda>time.
      setRegisteredParameter W ch (Str ''modulationrange'') (Arr [semitones, cents])
        (Obj [(''time'', time)])))"

definition setNonRegisteredParameter :: "webmidi \<Rightarrow> int \<Rightarrow> jsval \<Rightarrow> jsval \<Rightarrow> jsval \<Rightarrow> unit eff" where
  "setNonRegisteredParameter W ch parameter data0 options0 =
     (let options = default_options options0;
          data = Arr (concat_data data0)
      in andThen (lift (get_prop options ''time'')) (\<lambda>unused.
         andThen (selectNonRegisteredParameter W ch parameter (N (of_int ch))) (\<lambda>u.
         andThen (lift (get_prop options ''time'')) (\<lambda>unused.
         andThen (setCurrentRegisteredParameter W ch data (N (of_int ch))) (\<lambda>u.
         andThen (lift (get_prop options ''time'')) (\<lambda>time.
         deselectRegisteredParameter W ch time))))))"

definition setPitchBend :: "webmidi \<Rightarrow> int \<Rightarrow> jsval \<Rightarrow> jsval \<Rightarrow> unit eff" where
  "setPitchBend W ch value0 options0 =
     (let options = default_options options0;
          value1 = parseFloat value0;
          value2 = (if value1 = NaN then Fin 0 else value1)
      in andThen (lift (get_prop options ''rawValue'')) (\<lambda>raw.
         let value = (if truthy raw
                      then js_sub (js_mul (js_div value2 (Fin 127)) (Fin 2)) (Fin 1)
                      else value2)
         in if js_lt value (Fin (- 1)) \<or> js_gt value (Fin 1)
            then fail (RangeError ''Pitch bend value must be between -1.0 and 1.0.'')
            else
              (let nLevel = Math_round (js_mul (js_div (js_add value (Fin 1)) (Fin 2)) (Fin 16383));
                   msb = js_band (js_sar nLevel 7) (Fin 0x7F);
                   lsb = js_band nLevel (Fin 0x7F)
               in andThen (lift (get_prop options ''time'')) (\<lambda>time.
                  send (shl32 (MIDI_CHANNEL_VOICE_MESSAGES W pitchbend) 4 + (ch - 1))
                    [Num lsb, Num msb]
                    (convertToTimestamp W time)))))"

definition setPitchBendRange :: "webmidi \<Rightarrow> int \<Rightarrow> jsval \<Rightarrow> jsval \<Rightarrow> jsval \<Rightarrow> unit eff" where
  "setPitchBendRange W ch semitones cents options0 =
     (let options = default_options options0 in
      andThen (lift (get_prop options ''time'')) (\<lambda>time.
      setRegisteredParameter W ch (Str ''pitchbendrange'') (Arr [semitones, cents])
        (Obj [(''time'', time)])))"

definition setProgram :: "webmidi \<Rightarrow> int \<Rightarrow> jsval \<Rightarrow> jsval \<Rightarrow> unit eff" where
  "setProgram W ch program0 options0 =
     (let options = default_options options0;
          program = js_sub (parseFloat program0) (Fin 1)
      in andThen (lift (get_prop options ''time'')) (\<lambda>time.
         send (shl32 (MIDI_CHANNEL_VOICE_MESSAGES W programchange) 4 + (ch - 1))
           [Num program]
           (convertToTimestamp W time)))"

definition setTuningBank :: "webmidi \<Rightarrow> int \<Rightarrow> jsval \<Rightarrow> jsval \<Rightarrow> unit eff" where
  "setTuningBank W ch value0 options0 =
     (let options = default_options options0;
          value = parseInt value0
      in if value = NaN \<or> \<not> (js_ge value (Fin 1) \<and> js_le value (Fin 128))
         then fail (RangeError ''The program value must be between 1 and 128.'')
         else
           andThen (lift (get_prop options ''time'')) (\<lambda>unused.
           setRegisteredParameter W ch (Str ''tuningbank'') (Num (js_sub value (Fin 1)))
             (N (of_int ch))))"

definition setTuningProgram :: "webmidi \<Rightarrow> int \<Rightarrow> jsval \<Rightarrow> jsval \<Rightarrow> unit eff" where
  "setTuningProgram W ch value0 options0 =
     (let options = default_options options0;
          value = parseInt value0
      in if value = NaN \<or> \<not> (js_ge value (Fin 1) \<and> js_le value (Fin 128))
         then fail (RangeError ''The program value must be between 1 and 128.'')
         else
           andThen (lift (get_prop options ''time'')) (\<lambda>unused.
           setRegisteredParameter W ch (Str ''tuningprogram'') (Num (js_sub value (Fin 1)))
             (N (of_int ch))))"

definition setLocalControl :: "webmidi \<Rightarrow> int \<Rightarrow> jsval \<Rightarrow> jsval \<Rightarrow> unit eff" where
  "setLocalControl W ch state options0 =
     (let options = default_options options0 in
      if truthy state
      then sendChannelMode W ch (Str ''localcontrol'') (N 127) options
      else sendChannelMode W ch (Str ''localcontrol'') (N 0) options)"

definition turnNotesOff :: "webmidi \<Rightarrow> int \<Rightarrow> jsval \<Rightarrow> unit eff" where
  "turnNotesOff W ch options0 =
     sendChannelMode W ch (Str ''allnotesoff'') (N 0) (default_options options0)"

definition turnSoundOff :: "webmidi \<Rightarrow> int \<Rightarrow> jsval \<Rightarrow> unit eff" where
  "turnSoundOff W ch options0 =
     sendChannelMode W ch (Str ''allsoundoff'') (N 0) (default_options options0)"

definition resetAllControllers :: "webmidi \<Rightarrow> int \<Rightarrow> jsval \<Rightarrow> unit eff" where
  "resetAllControllers W ch options0 =
     sendChannelMode W ch (Str ''resetallcontrollers'') (N 0) (default_options options0)"

definition setPolyphonicMode :: "webmidi \<Rightarrow> int \<Rightarrow> jsval \<Rightarrow> jsval \<Rightarrow> unit eff" where
  "setPolyphonicMode W ch mode options0 =
     (let options = default_options options0 in
      if mode = Str ''mono''
      then sendChannelMode W ch (Str ''monomodeon'') (N 0) options
      else sendChannelMode W ch (Str ''polymodeon'') (N 0) options)"

section \<open>A reference collaborator\<close>

text \<open>
  The theorems below hold for every \<^verbatim>\<open>WebMidi\<close> collaborator, under the hypotheses
  they state. To run the methods on concrete calls, this section fixes one collaborator:
  the tables as the doc comments of \<^verbatim>\<open>OutputChannel.js\<close> list them, and the two
  resolvers as the specification describes them.
\<close>

text \<open>
  Modelled from the spec: \<^verbatim>\<open>WebMidi.MIDI_CHANNEL_VOICE_MESSAGES\<close> (\<^verbatim>\<open>WebMidi.js\<close> is not
  among the sources). The specification gives the command nibble of a control change as
  \<^verbatim>\<open>0xB\<close> and asks for the protocol's summary-of-messages table, in which a status
  byte lies in [128,255]; the other nibbles are that table's. A channel-mode message is
  a control change on the wire.
\<close>

fun voice_nibble :: "voice_message \<Rightarrow> int" where
  "voice_nibble noteoff = 0x8"
| "voice_nibble noteon = 0x9"
| "voice_nibble keyaftertouch = 0xA"
| "voice_nibble controlchange = 0xB"
| "voice_nibble channelmode = 0xB"
| "voice_nibble programchange = 0xC"
| "voice_nibble channelaftertouch = 0xD"
| "voice_nibble pitchbend = 0xE"

text \<open>
  Modelled from the spec: the controller name to number table, with the names and numbers
  that the doc comment of \<^verbatim>\<open>sendControlChange\<close> lists.
\<close>

definition control_change_table :: "(string \<times> int) list" where
  "control_change_table =
     [(''bankselectcoarse'', 0), (''modulationwheelcoarse'', 1),
      (''breathcontrollercoarse'', 2), (''footcontrollercoarse'', 4),
      (''portamentotimecoarse'', 5), (''dataentrycoarse'', 6), (''volumecoarse'', 7),
      (''balancecoarse'', 8), (''pancoarse'', 10), (''expressioncoarse'', 11),
      (''effectcontrol1coarse'', 12), (''effectcontrol2coarse'', 13),
      (''generalpurposeslider1'', 16), (''generalpurposeslider2'', 17),
      (''generalpurposeslider3'', 18), (''generalpurposeslider4'', 19),
      (''bankselectfine'', 32), (''modulationwheelfine'', 33), (''breathcontrollerfine'', 34),
      (''footcontrollerfine'', 36), (''portamentotimefine'', 37), (''dataentryfine'', 38),
      (''volumefine'', 39), (''balancefine'', 40), (''panfine'', 42), (''expressionfine'', 43),
      (''effectcontrol1fine'', 44), (''effectcontrol2fine'', 45), (''holdpedal'', 64),
      (''portamento'', 65), (''sustenutopedal'', 66), (''softpedal'', 67),
      (''legatopedal'', 68), (''hold2pedal'', 69), (''soundvariation'', 70),
      (''resonance'', 71), (''soundreleasetime'', 72), (''soundattacktime'', 73),
      (''brightness'', 74), (''soundcontrol6'', 75), (''soundcontrol7'', 76),
      (''soundcontrol8'', 77), (''soundcontrol9'', 78), (''soundcontrol10'', 79),
      (''generalpurposebutton1'', 80), (''generalpurposebutton2'', 81),
      (''generalpurposebutton3'', 82), (''generalpurposebutton4'', 83), (''reverblevel'', 91),
      (''tremololevel'', 92), (''choruslevel'', 93), (''celestelevel'', 94),
      (''phaserlevel'', 95), (''databuttonincrement'', 96), (''databuttondecrement'', 97),
      (''nonregisteredparametercoarse'', 98), (''nonregisteredparameterfine'', 99),
      (''registeredparametercoarse'', 100), (''registeredparameterfine'', 101)]"

text \<open>
  Modelled from the spec: the channel-mode name to number table, as the doc comment of
  \<^verbatim>\<open>sendChannelMode\<close> lists it.
\<close>

definition channel_mode_table :: "(string \<times> int) list" where
  "channel_mode_table =
     [(''allsoundoff'', 120), (''resetallcontrollers'', 121), (''localcontrol'', 122),
      (''allnotesoff'', 123), (''omnimodeoff'', 124), (''omnimodeon'', 125),
      (''monomodeon'', 126), (''polymodeon'', 127)]"

text \<open>
  Modelled from the spec: the parameter name to byte pair table, as the doc comment of
  \<^verbatim>\<open>setRegisteredParameter\<close> lists it.
\<close>

definition registered_parameter_table :: "(string \<times> int \<times> int) list" where
  "registered_parameter_table =
     [(''pitchbendrange'', (0x00, 0x00)), (''channelfinetuning'', (0x00, 0x01)),
      (''channelcoarsetuning'', (0x00, 0x02)), (''tuningprogram'', (0x00, 0x03)),
      (''tuningbank'', (0x00, 0x04)), (''modulationrange'', (0x00, 0x05)),
      (''azimuthangle'', (0x3D, 0x00)), (''elevationangle'', (0x3D, 0x01)),
      (''gain'', (0x3D, 0x02)), (''distanceratio'', (0x3D, 0x03)),
      (''maximumdistance'', (0x3D, 0x04)), (''maximumdistancegain'', (0x3D, 0x05)),
      (''referencedistanceratio'', (0x3D, 0x06)), (''panspreadangle'', (0x3D, 0x07)),
      (''rollangle'', (0x3D, 0x08))]"

text \<open>
  Modelled from the spec: the time resolver \<^verbatim>\<open>WebMidi.convertToTimestamp\<close>. A time is
  absent, an absolute timestamp, or a string \<^verbatim>\<open>"+<milliseconds>"\<close> relative to now;
  \<^verbatim>\<open>undefined\<close> or a past time resolves to "as soon as possible", for which the doc
  comment of \<^verbatim>\<open>send\<close> names the timestamp 0. The clock reading \<open>now\<close> is a parameter.
\<close>

definition resolve_time :: "rat \<Rightarrow> jsval \<Rightarrow> jsval" where
  "resolve_time now time =
     (case time of
        Str s \<Rightarrow>
          (case s of
             [] \<Rightarrow> N 0
           | c # cs \<Rightarrow>
               (case parseFloat_str s of
                  Fin d \<Rightarrow> if c = CHR ''+'' \<and> 0 \<le> d then N (now + d) else N 0
                | _ \<Rightarrow> N 0))
      | Num (Fin t) \<Rightarrow> if t < now then N 0 else N t
      | _ \<Rightarrow> N 0)"

text \<open>
  Modelled from the spec: the note resolver \<^verbatim>\<open>WebMidi.getValidNoteArray\<close>. It accepts a
  note number, a note name, a note object or an array of these, and yields one note per
  input in input order, each with its own velocity or the one of the options. A name is a
  letter, an optional \<open>#\<close> or \<open>b\<close> and an octave from -1 to 9, \<open>C-1\<close> being note 0 (doc
  comment of \<^verbatim>\<open>playNote\<close>). What it does with an input it cannot resolve is not
  specified; here it throws.
\<close>

definition letter_semitone :: "char \<Rightarrow> int option" where
  "letter_semitone = map_of
     [(CHR ''C'', 0), (CHR ''D'', 2), (CHR ''E'', 4), (CHR ''F'', 5), (CHR ''G'', 7),
      (CHR ''A'', 9), (CHR ''B'', 11), (CHR ''c'', 0), (CHR ''d'', 2), (CHR ''e'', 4),
      (CHR ''f'', 5), (CHR ''g'', 7), (CHR ''a'', 9), (CHR ''b'', 11)]"

definition octave_of :: "string \<Rightarrow> int option" where
  "octave_of s =
     (if s = ''-1'' then Some (- 1)
      else (case s of
              [c] \<Rightarrow> (case dec_digit c of None \<Rightarrow> None | Some k \<Rightarrow> Some (int k))
            | _ \<Rightarrow> None))"

definition note_name_number :: "string \<Rightarrow> int option" where
  "note_name_number s =
     (case s of
        [] \<Rightarrow> None
      | l # r \<Rightarrow>
          (case letter_semitone l of
             None \<Rightarrow> None
           | Some p \<Rightarrow>
               (let acc = (case r of
                             [] \<Rightarrow> 0
                           | a # t \<Rightarrow> if a = CHR ''#'' then 1 else if a = CHR ''b'' then - 1 else 0);
                    oct = octave_of (if acc = 0 then r else tl r)
                in (case oct of
                      None \<Rightarrow> None
                    | Some q \<Rightarrow>
                        (let k = (q + 1) * 12 + p + acc
                         in if 0 \<le> k \<and> k \<le> 127 then Some k else None)))))"

definition option_or :: "(string \<times> jsval) list \<Rightarrow> string \<Rightarrow> jsval \<Rightarrow> jsval" where
  "option_or ps k d = (case map_of ps k of None \<Rightarrow> d | Some Undefined \<Rightarrow> d | Some x \<Rightarrow> x)"

definition shared_velocity :: "jsval \<Rightarrow> string \<Rightarrow> jsval" where
  "shared_velocity options k = (case options of Obj ps \<Rightarrow> option_or ps k (N 64) | _ \<Rightarrow> N 64)"

definition numbered_note :: "jsval \<Rightarrow> rat \<Rightarrow> midi_note" where
  "numbered_note options k =
     \<lparr>number = N k, rawAttack = shared_velocity options ''rawAttack'',
      rawRelease = shared_velocity options ''rawRelease''\<rparr>"

definition is_note_number :: "rat \<Rightarrow> bool" where
  "is_note_number k = (k = of_int \<lfloor>k\<rfloor> \<and> 0 \<le> k \<and> k \<le> 127)"

definition unresolved :: "error + midi_note list" where
  "unresolved = Inl (TypeError ''The note could not be resolved.'')"

fun resolve_note :: "jsval \<Rightarrow> jsval \<Rightarrow> error + midi_note list" where
  "resolve_note options (Num (Fin k)) =
     (if is_note_number k then Inr [numbered_note options k] else unresolved)"
| "resolve_note options (Str s) =
     (case note_name_number s of
        None \<Rightarrow> unresolved
      | Some k \<Rightarrow> Inr [numbered_note options (of_int k)])"
| "resolve_note options (Obj ps) =
     (case map_of ps ''number'' of
        Some (Num (Fin k)) \<Rightarrow>
          (if is_note_number k
           then Inr [\<lparr>number = N k,
                      rawAttack = option_or ps ''rawAttack'' (shared_velocity options ''rawAttack''),
                      rawRelease = option_or ps ''rawRelease'' (shared_velocity options ''rawRelease'')\<rparr>]
           else unresolved)
      | _ \<Rightarrow> unresolved)"
| "resolve_note options v = unresolved"

fun resolve_notes :: "jsval \<Rightarrow> jsval list \<Rightarrow> error + midi_note list" where
  "resolve_notes options [] = Inr []"
| "resolve_notes options (v # vs) =
     (case resolve_note options v of
        Inl e \<Rightarrow> Inl e
      | Inr ns \<Rightarrow> (case resolve_notes options vs of Inl e \<Rightarrow> Inl e | Inr ms \<Rightarrow> Inr (ns @ ms)))"

definition resolve_note_array :: "jsval \<Rightarrow> jsval \<Rightarrow> error + midi_note list" where
  "resolve_note_array note options =
     (case note of Arr vs \<Rightarrow> resolve_notes options vs | _ \<Rightarrow> resolve_note options note)"

definition WebMidi_ref :: "rat \<Rightarrow> webmidi" where
  "WebMidi_ref now =
     \<lparr>MIDI_CHANNEL_VOICE_MESSAGES = voice_nibble,
      MIDI_CONTROL_CHANGE_MESSAGES = map_of control_change_table,
      MIDI_CHANNEL_MODE_MESSAGES = map_of channel_mode_table,
      MIDI_REGISTERED_PARAMETER = map_of registered_parameter_table,
      convertToTimestamp = resolve_time now,
      getValidNoteArray = resolve_note_array\<rparr>"

section \<open>Vocabulary of the properties\<close>

text \<open>The kind of an error, apart from its message.\<close>

datatype error_kind = TypeError_kind | RangeError_kind | Error_kind

fun kind_of :: "error \<Rightarrow> error_kind" where
  "kind_of (TypeError msg) = TypeError_kind"
| "kind_of (RangeError msg) = RangeError_kind"
| "kind_of (Error msg) = Error_kind"

definition failure_kind :: "'a eff \<Rightarrow> error_kind option" where
  "failure_kind r = map_option kind_of (failure r)"

text \<open>
  The message-building methods of the channel, as calls with their arguments, and the
  messages a call hands to the output. The raw \<^verbatim>\<open>send\<close> is not among them: it passes on
  whatever status byte its caller supplies.
\<close>

datatype operation =
    SetKeyAftertouch jsval jsval jsval
  | SendControlChange jsval jsval jsval
  | DecrementRegisteredParameter jsval jsval
  | IncrementRegisteredParameter jsval jsval
  | PlayNote jsval jsval
  | SendNoteOff jsval jsval
  | StopNote jsval jsval
  | SendNoteOn jsval jsval
  | SendChannelMode jsval jsval jsval
  | SetOmniMode jsval jsval
  | SetChannelAftertouch jsval jsval
  | SetMasterTuning jsval jsval
  | SetModulationRange jsval jsval jsval
  | SetNonRegisteredParameter jsval jsval jsval
  | SetPitchBend jsval jsval
  | SetPitchBendRange jsval jsval jsval
  | SetProgram jsval jsval
  | SetRegisteredParameter jsval jsval jsval
  | SetTuningBank jsval jsval
  | SetTuningProgram jsval jsval
  | SetLocalControl jsval jsval
  | TurnNotesOff jsval
  | TurnSoundOff jsval
  | ResetAllControllers jsval
  | SetPolyphonicMode jsval jsval

fun emitted :: "webmidi \<Rightarrow> int \<Rightarrow> operation \<Rightarrow> message list" where
  "emitted W ch (SetKeyAftertouch n p opts) = sent (setKeyAftertouch W ch n p opts)"
| "emitted W ch (SendControlChange c v opts) = sent (sendControlChange W ch c v opts)"
| "emitted W ch (DecrementRegisteredParameter p opts) = sent (decrementRegisteredParameter W ch p opts)"
| "emitted W ch (IncrementRegisteredParameter p opts) = sent (incrementRegisteredParameter W ch p opts)"
| "emitted W ch (PlayNote n opts) = sent (playNote W ch n opts)"
| "emitted W ch (SendNoteOff n opts) = sent (sendNoteOff W ch n opts)"
| "emitted W ch (StopNote n opts) = sent (stopNote W ch n opts)"
| "emitted W ch (SendNoteOn n opts) = sent (sendNoteOn W ch n opts)"
| "emitted W ch (SendChannelMode c v opts) = sent (sendChannelMode W ch c v opts)"
| "emitted W ch (SetOmniMode s opts) = sent (setOmniMode W ch s opts)"
| "emitted W ch (SetChannelAftertouch p opts) = sent (setChannelAftertouch W ch p opts)"
| "emitted W ch (SetMasterTuning v opts) = sent (setMasterTuning W ch v opts)"
| "emitted W ch (SetModulationRange s c opts) = sent (setModulationRange W ch s c opts)"
| "emitted W ch (SetNonRegisteredParameter p d opts) = sent (setNonRegisteredParameter W ch p d opts)"
| "emitted W ch (SetPitchBend v opts) = sent (setPitchBend W ch v opts)"
| "emitted W ch (SetPitchBendRange s c opts) = sent (setPitchBendRange W ch s c opts)"
| "emitted W ch (SetProgram p opts) = sent (setProgram W ch p opts)"
| "emitted W ch (SetRegisteredParameter p d opts) = sent (setRegisteredParameter W ch p d opts)"
| "emitted W ch (SetTuningBank v opts) = sent (setTuningBank W ch v opts)"
| "emitted W ch (SetTuningProgram v opts) = sent (setTuningProgram W ch v opts)"
| "emitted W ch (SetLocalControl s opts) = sent (setLocalControl W ch s opts)"
| "emitted W ch (TurnNotesOff opts) = sent (turnNotesOff W ch opts)"
| "emitted W ch (TurnSoundOff opts) = sent (turnSoundOff W ch opts)"
| "emitted W ch (ResetAllControllers opts) = sent (resetAllControllers W ch opts)"
| "emitted W ch (SetPolyphonicMode m opts) = sent (setPolyphonicMode W ch m opts)"

text \<open>The command families whose messages a method sends.\<close>

fun families :: "operation \<Rightarrow> voice_message set" where
  "families (SetKeyAftertouch n p opts) = {keyaftertouch}"
| "families (PlayNote n opts) = {noteon, noteoff}"
| "families (SendNoteOff n opts) = {noteoff}"
| "families (StopNote n opts) = {noteoff}"
| "families (SendNoteOn n opts) = {noteon}"
| "families (SendChannelMode c v opts) = {channelmode}"
| "families (SetOmniMode s opts) = {channelmode}"
| "families (SetLocalControl s opts) = {channelmode}"
| "families (TurnNotesOff opts) = {channelmode}"
| "families (TurnSoundOff opts) = {channelmode}"
| "families (ResetAllControllers opts) = {channelmode}"
| "families (SetPolyphonicMode m opts) = {channelmode}"
| "families (SetChannelAftertouch p opts) = {channelaftertouch}"
| "families (SetPitchBend v opts) = {pitchbend}"
| "families (SetProgram p opts) = {programchange}"
| "families other = {controlchange}"

text \<open>All messages of an outcome satisfy a predicate.\<close>

definition all_sent :: "(message \<Rightarrow> bool) \<Rightarrow> 'a eff \<Rightarrow> bool" where
  "all_sent P r = list_all P (snd r)"

text \<open>
  The status byte of a message is the one the channel \<open>ch\<close> computes for a command
  family in \<open>C\<close>: \<^verbatim>\<open>(nibble << 4) + (this.number - 1)\<close>.
\<close>

definition on_channel :: "webmidi \<Rightarrow> int \<Rightarrow> voice_message set \<Rightarrow> message \<Rightarrow> bool" where
  "on_channel W ch C m =
     (\<exists>c \<in> C. statusByte m = shl32 (MIDI_CHANNEL_VOICE_MESSAGES W c) 4 + (ch - 1))"

section \<open>Evaluation rules\<close>

lemma andThen_Inr [simp]:
  "andThen (Inr x, ms) f = (case f x of (r, ms') \<Rightarrow> (r, ms @ ms'))"
  by (simp add: andThen_def)

lemma andThen_Inl [simp]: "andThen (Inl e, ms) f = (Inl e, ms)"
  by (simp add: andThen_def)

lemmas eff_defs = ok_def fail_def lift_def send_def

lemma js_lt_NaN [simp]: "js_lt x NaN = False"
  by (cases x) simp_all

lemma js_cmp_Fin [simp]:
  "js_le (Fin a) (Fin b) = (a \<le> b)"
  "js_ge (Fin a) (Fin b) = (b \<le> a)"
  "js_gt (Fin a) (Fin b) = (b < a)"
  by (auto simp add: js_le_def js_ge_def js_gt_def)

lemma js_cmp_NaN [simp]:
  "js_le NaN y = False" "js_le x NaN = False"
  "js_ge NaN y = False" "js_ge x NaN = False"
  "js_gt NaN y = False" "js_gt x NaN = False"
  by (simp_all add: js_le_def js_ge_def js_gt_def)

lemma default_options_simps [simp]:
  "default_options Undefined = Obj []"
  "default_options Null = Null"
  "default_options (Bool b) = Bool b"
  "default_options (Num x) = Num x"
  "default_options (Str s) = Str s"
  "default_options (Arr xs) = Arr xs"
  "default_options (Obj ps) = Obj ps"
  by (simp_all add: default_options_def)

lemma get_prop_simps [simp]:
  "get_prop Undefined k = Inl (TypeError ''Cannot read properties of undefined'')"
  "get_prop Null k = Inl (TypeError ''Cannot read properties of null'')"
  "get_prop (Bool b) k = Inr Undefined"
  "get_prop (Num x) k = Inr Undefined"
  "get_prop (Str s) k = Inr Undefined"
  "get_prop (Arr xs) k = Inr Undefined"
  "get_prop (Obj ps) k = Inr (read_prop (Obj ps) k)"
  by (simp_all add: get_prop_def read_prop_def)

text \<open>With any options but \<^verbatim>\<open>null\<close>, reading an option succeeds.\<close>

lemma get_prop_default:
  "options \<noteq> Null \<Longrightarrow>
   get_prop (default_options options) k = Inr (read_prop (default_options options) k)"
  by (cases options) (simp_all add: read_prop_def)

lemmas js_defs = js_sub_def isNaN_def num_or_def trunc_def
  js_shl_def js_sar_def js_band_def js_bor_def

lemmas prop_defs = read_prop_def set_prop_def get_index_def set_index_def
  nth_undef_def store_nth_def index_key_def concat_data_def

lemmas parse_defs = parseInt_num_def parseInt_str_def parseFloat_str_def trim_left_def
  trim_def is_ws_def str_decimal_def dec_digit_def hex_digit_def radix_digit_def
  digits_value_def scale10_def StringToNumber_def radix_literal_def leading_digit_def

lemmas parameter_defs = selectNonRegisteredParameter_def deselectRegisteredParameter_def
  selectRegisteredParameter_def setCurrentRegisteredParameter_def registered_parameter_def

lemmas ref_defs = WebMidi_ref_def control_change_table_def channel_mode_table_def
  registered_parameter_table_def resolve_time_def resolve_note_array_def numbered_note_def
  shared_velocity_def option_or_def is_note_number_def unresolved_def note_name_number_def
  octave_of_def letter_semitone_def

text \<open>A control change sent by the parameter protocol, with its \<^verbatim>\<open>{time: time}\<close> options.\<close>

lemma sendControlChange_time:
  "sendControlChange W ch (N k) v (Obj [(''time'', t)]) =
     (if 0 \<le> \<lfloor>k\<rfloor> \<and> \<lfloor>k\<rfloor> \<le> 119
      then (Inr (),
            [\<lparr>statusByte = shl32 (MIDI_CHANNEL_VOICE_MESSAGES W controlchange) 4 + (ch - 1),
              dataBytes = [N (of_int \<lfloor>k\<rfloor>), v], timestamp = convertToTimestamp W t\<rparr>])
      else (Inl (RangeError ''Controller numbers must be between 0 and 119.''), []))"
  by (auto simp add: sendControlChange_def eff_defs read_prop_def Let_def)






lemma forEach_send:
  "forEach xs (\<lambda>x. (Inr (), [g x])) = (Inr (), map g xs)"
  by (induction xs) (simp_all add: ok_def)

text \<open>Outcomes, and \<^verbatim>\<open>parseInt\<close> on integers.\<close>

lemma failure_simps [simp]:
  "failure (Inl e, ms) = Some e" "failure (Inr x, ms) = None"
  "failure_kind (Inl e, ms) = Some (kind_of e)" "failure_kind (Inr x, ms) = None"
  "sent (r, ms) = ms"
  by (simp_all add: failure_def failure_kind_def sent_def)

lemma parseInt_int:
  assumes "\<bar>d\<bar> < 10 ^ 21"
  shows "parseInt_num (of_int d) = Fin (of_int d)"
proof (cases "d = 0")
  case True
  then show ?thesis by (simp add: parseInt_num_def)
next
  case False
  then have "1 \<le> \<bar>d\<bar>" by simp
  then have one: "(1::rat) \<le> \<bar>of_int d\<bar>"
    by (metis of_int_1_le_iff of_int_abs)
  have big: "\<bar>of_int d :: rat\<bar> < 10 ^ 21"
    using assms by (metis of_int_abs of_int_less_numeral_power_cancel_iff)
  have small: "\<not> \<bar>of_int d :: rat\<bar> < 1 / 10 ^ 6"
    using one by simp
  show ?thesis
    using False big small by (simp add: parseInt_num_def trunc_def)
qed




text \<open>The phases of the parameter protocol on integer bytes.\<close>

lemma select_rejects:
  fixes a b :: int
  assumes "a < 0 \<or> 127 < a \<or> b < 0 \<or> 127 < b"
  shows "selectRegisteredParameter W ch (Arr [N (of_int a), N (of_int b)]) t
           = (Inl (RangeError (if a < 0 \<or> 127 < a
                               then ''The control65 value must be between 0 and 127''
                               else ''The control64 value must be between 0 and 127'')), [])"
    and "selectNonRegisteredParameter W ch (Arr [N (of_int a), N (of_int b)]) t
           = (Inl (RangeError (if a < 0 \<or> 127 < a
                               then ''The control63 value must be between 0 and 127.''
                               else ''The control62 value must be between 0 and 127.'')), [])"
  using assms
  by (auto simp add: selectRegisteredParameter_def selectNonRegisteredParameter_def eff_defs
      prop_defs)

lemma select_accepts:
  fixes a b :: int
  assumes "0 \<le> a" "a \<le> 127" "0 \<le> b" "b \<le> 127"
  shows "selectRegisteredParameter W ch (Arr [N (of_int a), N (of_int b)]) t
      = (Inr (),
         [\<lparr>statusByte = shl32 (MIDI_CHANNEL_VOICE_MESSAGES W controlchange) 4 + (ch - 1),
           dataBytes = [N 0x65, N (of_int a)], timestamp = convertToTimestamp W t\<rparr>,
          \<lparr>statusByte = shl32 (MIDI_CHANNEL_VOICE_MESSAGES W controlchange) 4 + (ch - 1),
           dataBytes = [N 0x64, N (of_int b)], timestamp = convertToTimestamp W t\<rparr>])"
    and "selectNonRegisteredParameter W ch (Arr [N (of_int a), N (of_int b)]) t
      = (Inr (),
         [\<lparr>statusByte = shl32 (MIDI_CHANNEL_VOICE_MESSAGES W controlchange) 4 + (ch - 1),
           dataBytes = [N 0x63, N (of_int a)], timestamp = convertToTimestamp W t\<rparr>,
          \<lparr>statusByte = shl32 (MIDI_CHANNEL_VOICE_MESSAGES W controlchange) 4 + (ch - 1),
           dataBytes = [N 0x62, N (of_int b)], timestamp = convertToTimestamp W t\<rparr>])"
  using assms
  by (simp_all add: selectRegisteredParameter_def selectNonRegisteredParameter_def eff_defs
      prop_defs sendControlChange_time)

lemma setCurrent_rejects_msb:
  fixes d0 :: int
  assumes "\<not> (0 \<le> d0 \<and> d0 \<le> 127)" "\<bar>d0\<bar> < 10 ^ 21"
  shows "setCurrentRegisteredParameter W ch (Arr (N (of_int d0) # ds)) t
      = (Inl (RangeError ''The msb value must be between 0 and 127.''), [])"
  using assms(1)
  by (auto simp add: setCurrentRegisteredParameter_def eff_defs prop_defs isNaN_def Let_def
      parseInt_int [OF assms(2)])

lemma setCurrent_rejects_lsb:
  fixes d0 d1 :: int
  assumes "0 \<le> d0" "d0 \<le> 127" "\<not> (0 \<le> d1 \<and> d1 \<le> 127)" "\<bar>d1\<bar> < 10 ^ 21"
  shows "setCurrentRegisteredParameter W ch (Arr (N (of_int d0) # N (of_int d1) # ds)) t
      = (Inl (RangeError ''The lsb value must be between 0 and 127.''),
         [\<lparr>statusByte = shl32 (MIDI_CHANNEL_VOICE_MESSAGES W controlchange) 4 + (ch - 1),
           dataBytes = [N 0x06, N (of_int d0)], timestamp = convertToTimestamp W t\<rparr>])"
proof -
  have d0: "parseInt_num (of_int d0) = Fin (of_int d0)"
    using assms(1,2) by (intro parseInt_int) simp
  show ?thesis
    using assms
    by (auto simp add: setCurrentRegisteredParameter_def eff_defs prop_defs isNaN_def Let_def
        d0 parseInt_int [OF assms(4)] sendControlChange_time)
qed

text \<open>
  Status bytes: every combinator keeps a property of the messages sent, so every method
  sends on its channel and in its command family.
\<close>

lemma and_15: "and (k::int) 15 = take_bit 4 k"
proof -
  have "(15::int) = mask 4"
    by (simp add: mask_eq_exp_minus_1)
  then show ?thesis
    by (simp add: take_bit_eq_mask)
qed

lemma status_byte_arithmetic:
  fixes ch x :: int
  assumes "1 \<le> ch" and "ch \<le> 16" and "8 \<le> x" and "x \<le> 15"
  shows "shl32 x 4 + (ch - 1) = or (push_bit 4 x) (ch - 1)"
    and "and (shl32 x 4 + (ch - 1)) 0xF = ch - 1"
    and "drop_bit 4 (shl32 x 4 + (ch - 1)) = x"
    and "128 \<le> shl32 x 4 + (ch - 1)"
    and "shl32 x 4 + (ch - 1) \<le> 255"
proof -
  define r where "r = ch - 1"
  have r: "0 \<le> r" "r < 16"
    using assms by (simp_all add: r_def)
  have x1: "signed_take_bit 31 x = x"
    using assms by (intro signed_take_bit_int_eq_self) simp_all
  have x2: "signed_take_bit 31 (push_bit 4 x) = push_bit 4 x"
    using assms by (intro signed_take_bit_int_eq_self) (simp_all add: push_bit_eq_mult)
  have shl: "shl32 x 4 = push_bit 4 x"
    by (simp add: shl32_def x1 x2)
  have tr: "take_bit 4 r = r"
    using r by (simp add: take_bit_int_eq_self)
  have "push_bit 4 x + take_bit 4 r = or (push_bit 4 x) (take_bit 4 r)"
    by (rule disjunctive_add) (auto simp add: bit_simps)
  then show "shl32 x 4 + (ch - 1) = or (push_bit 4 x) (ch - 1)"
    by (simp add: shl tr flip: r_def)
  show "and (shl32 x 4 + (ch - 1)) 0xF = ch - 1"
    using r by (simp add: shl and_15 take_bit_eq_mod push_bit_eq_mult flip: r_def)
  show "drop_bit 4 (shl32 x 4 + (ch - 1)) = x"
    using r by (simp add: shl drop_bit_eq_div push_bit_eq_mult flip: r_def)
  show "128 \<le> shl32 x 4 + (ch - 1)" "shl32 x 4 + (ch - 1) \<le> 255"
    using r assms by (simp_all add: shl push_bit_eq_mult flip: r_def)
qed

lemma all_sent_pair [simp]: "all_sent P (r, ms) = list_all P ms"
  by (simp add: all_sent_def)

lemma all_sent_andThen:
  assumes "all_sent P m" and "\<And>x. all_sent P (f x)"
  shows "all_sent P (andThen m f)"
proof (cases m)
  case (Pair r ms)
  show ?thesis
  proof (cases r)
    case (Inl e)
    with Pair assms(1) show ?thesis by simp
  next
    case (Inr x)
    with Pair assms(1) assms(2) [of x] show ?thesis
      by (cases "f x") simp
  qed
qed

lemma all_sent_forEach:
  assumes "\<And>x. all_sent P (f x)"
  shows "all_sent P (forEach xs f)"
  by (induction xs) (simp_all add: ok_def all_sent_andThen assms)

lemma all_sent_mono:
  assumes "all_sent P r" and "\<And>m. P m \<Longrightarrow> Q m"
  shows "all_sent Q r"
  using assms by (auto simp add: all_sent_def list_all_iff)

lemma all_sent_drop_result:
  "all_sent P r \<Longrightarrow> all_sent P (andThen r (\<lambda>x. ok y))"
  by (rule all_sent_andThen) (simp_all add: ok_def)

lemma on_channel_message [simp]:
  "c \<in> C \<Longrightarrow>
   on_channel W ch C
     \<lparr>statusByte = shl32 (MIDI_CHANNEL_VOICE_MESSAGES W c) 4 + (ch - 1),
       dataBytes = d, timestamp = t\<rparr>"
  by (auto simp add: on_channel_def)

lemma on_channel_send:
  "c \<in> C \<Longrightarrow>
   all_sent (on_channel W ch C)
     (send (shl32 (MIDI_CHANNEL_VOICE_MESSAGES W c) 4 + (ch - 1)) d t)"
  by (auto simp add: send_def on_channel_def)

lemma on_channel_mono:
  "all_sent (on_channel W ch C) r \<Longrightarrow> C \<subseteq> D \<Longrightarrow> all_sent (on_channel W ch D) r"
  by (erule all_sent_mono) (auto simp add: on_channel_def)

lemmas sends_intros = all_sent_andThen all_sent_forEach on_channel_send

lemma sendControlChange_status:
  "all_sent (on_channel W ch {controlchange}) (sendControlChange W ch c v opts)"
  unfolding sendControlChange_def Let_def
  by (auto simp add: eff_defs intro!: sends_intros split: jsval.splits option.splits)

lemma setKeyAftertouch_status:
  "all_sent (on_channel W ch {keyaftertouch}) (setKeyAftertouch W ch n p opts)"
  unfolding setKeyAftertouch_def Let_def
  by (auto simp add: eff_defs intro!: sends_intros)

lemma select_status:
  "all_sent (on_channel W ch {controlchange}) (selectRegisteredParameter W ch p t)"
  "all_sent (on_channel W ch {controlchange}) (selectNonRegisteredParameter W ch p t)"
  unfolding selectRegisteredParameter_def selectNonRegisteredParameter_def
  by (auto simp add: eff_defs sendControlChange_status intro!: sends_intros)

lemma deselect_status:
  "all_sent (on_channel W ch {controlchange}) (deselectRegisteredParameter W ch t)"
  unfolding deselectRegisteredParameter_def
  by (auto simp add: eff_defs sendControlChange_status intro!: sends_intros)

lemma setCurrent_status:
  "all_sent (on_channel W ch {controlchange}) (setCurrentRegisteredParameter W ch d t)"
  unfolding setCurrentRegisteredParameter_def Let_def
  by (auto simp add: eff_defs sendControlChange_status intro!: sends_intros)

lemmas protocol_status = sendControlChange_status select_status deselect_status
  setCurrent_status

lemma setRegisteredParameter_status:
  "all_sent (on_channel W ch {controlchange}) (setRegisteredParameter W ch p d opts)"
  unfolding setRegisteredParameter_def Let_def
  by (auto simp add: eff_defs protocol_status intro!: sends_intros split: option.splits)

lemma registered_status:
  "all_sent (on_channel W ch {controlchange}) (decrementRegisteredParameter W ch p opts)"
  "all_sent (on_channel W ch {controlchange}) (incrementRegisteredParameter W ch p opts)"
  "all_sent (on_channel W ch {controlchange}) (setNonRegisteredParameter W ch p d opts)"
  unfolding decrementRegisteredParameter_def incrementRegisteredParameter_def
    setNonRegisteredParameter_def Let_def
  by (auto simp add: eff_defs protocol_status intro!: sends_intros split: option.splits)

lemma tuning_status:
  "all_sent (on_channel W ch {controlchange}) (setMasterTuning W ch v opts)"
  "all_sent (on_channel W ch {controlchange}) (setModulationRange W ch s c opts)"
  "all_sent (on_channel W ch {controlchange}) (setPitchBendRange W ch s c opts)"
  "all_sent (on_channel W ch {controlchange}) (setTuningBank W ch v opts)"
  "all_sent (on_channel W ch {controlchange}) (setTuningProgram W ch v opts)"
  unfolding setMasterTuning_def setModulationRange_def setPitchBendRange_def
    setTuningBank_def setTuningProgram_def Let_def
  by (auto simp add: eff_defs setRegisteredParameter_status intro!: sends_intros)

lemma note_status:
  "all_sent (on_channel W ch {noteoff}) (sendNoteOff W ch n opts)"
  "all_sent (on_channel W ch {noteoff}) (stopNote W ch n opts)"
  "all_sent (on_channel W ch {noteon}) (sendNoteOn W ch n opts)"
  unfolding sendNoteOff_def stopNote_def sendNoteOn_def Let_def
  by (auto simp add: eff_defs intro!: sends_intros)

lemma playNote_status:
  "all_sent (on_channel W ch {noteon, noteoff}) (playNote W ch n opts)"
  unfolding playNote_def
  by (auto simp add: eff_defs intro!: all_sent_andThen
      on_channel_mono [OF note_status(1)] on_channel_mono [OF note_status(3)])

lemma sendChannelMode_status:
  "all_sent (on_channel W ch {channelmode}) (sendChannelMode W ch c v opts)"
  unfolding sendChannelMode_def Let_def
  by (auto simp add: eff_defs intro!: sends_intros)

lemma mode_status:
  "all_sent (on_channel W ch {channelmode}) (setOmniMode W ch s opts)"
  "all_sent (on_channel W ch {channelmode}) (setLocalControl W ch s opts)"
  "all_sent (on_channel W ch {channelmode}) (turnNotesOff W ch opts)"
  "all_sent (on_channel W ch {channelmode}) (turnSoundOff W ch opts)"
  "all_sent (on_channel W ch {channelmode}) (resetAllControllers W ch opts)"
  "all_sent (on_channel W ch {channelmode}) (setPolyphonicMode W ch m opts)"
  unfolding setOmniMode_def setLocalControl_def turnNotesOff_def turnSoundOff_def
    resetAllControllers_def setPolyphonicMode_def Let_def
  by (simp_all add: sendChannelMode_status)

lemma voice_status:
  "all_sent (on_channel W ch {channelaftertouch}) (setChannelAftertouch W ch p opts)"
  "all_sent (on_channel W ch {pitchbend}) (setPitchBend W ch v opts)"
  "all_sent (on_channel W ch {programchange}) (setProgram W ch p opts)"
  unfolding setChannelAftertouch_def setPitchBend_def setProgram_def Let_def
  by (auto simp add: eff_defs intro!: sends_intros)

lemma emitted_status:
  "list_all (on_channel W ch (families op)) (emitted W ch op)"
proof -
  have sent: "\<And>P r. all_sent P r \<Longrightarrow> list_all P (sent r)"
    by (simp add: all_sent_def sent_def)
  show ?thesis
    by (cases op)
      (simp_all add: sent setKeyAftertouch_status protocol_status setRegisteredParameter_status
        registered_status tuning_status note_status playNote_status sendChannelMode_status
        mode_status voice_status)
qed

section \<open>Properties\<close>

text \<open>
  C10. \<^verbatim>\<open>sendNoteOff\<close> has no default for its \<^verbatim>\<open>options\<close> parameter and reads
  \<^verbatim>\<open>options.rawVelocity\<close> before \<^verbatim>\<open>options = options || {}\<close>. Called without the
  second argument, for every note, it throws a \<^verbatim>\<open>TypeError\<close> and hands no message to
  the output; so does its alias \<^verbatim>\<open>stopNote\<close>.
\<close>

theorem sendNoteOff_without_options:
  "sendNoteOff W ch note Undefined
     = (Inl (TypeError ''Cannot read properties of undefined''), [])
   \<and> stopNote W ch note Undefined
     = (Inl (TypeError ''Cannot read properties of undefined''), [])"
  by (simp add: sendNoteOff_def stopNote_def get_prop_def eff_defs)

text \<open>
  C1, as the code has it. The data \<^verbatim>\<open>[12,0]\<close> holds two data bytes, so
  \<^verbatim>\<open>setRegisteredParameter("pitchbendrange", [12,0])\<close> sends six control changes on
  every channel: controller 0x65 with 0, 0x64 with 0, 0x06 with 12, 0x26 with 0, then the
  deselect pair 0x65 with 127 and 0x64 with 127. With one data byte, \<^verbatim>\<open>[12]\<close> or
  \<^verbatim>\<open>12\<close>, it sends the five messages without controller 0x26.
\<close>

theorem pitchbendrange_message_sequence:
  assumes "MIDI_REGISTERED_PARAMETER W ''pitchbendrange'' = Some (0, 0)"
    and "options \<noteq> Null"
  shows
    "failure (setRegisteredParameter W ch (Str ''pitchbendrange'') (Arr [N 12, N 0]) options) = None
     \<and> map dataBytes
         (sent (setRegisteredParameter W ch (Str ''pitchbendrange'') (Arr [N 12, N 0]) options))
       = [[N 0x65, N 0], [N 0x64, N 0], [N 0x06, N 12], [N 0x26, N 0],
          [N 0x65, N 127], [N 0x64, N 127]]
     \<and> map statusByte
         (sent (setRegisteredParameter W ch (Str ''pitchbendrange'') (Arr [N 12, N 0]) options))
       = replicate 6 (shl32 (MIDI_CHANNEL_VOICE_MESSAGES W controlchange) 4 + (ch - 1))
     \<and> failure (setRegisteredParameter W ch (Str ''pitchbendrange'') (Arr [N 12]) options) = None
     \<and> map dataBytes
         (sent (setRegisteredParameter W ch (Str ''pitchbendrange'') (Arr [N 12]) options))
       = [[N 0x65, N 0], [N 0x64, N 0], [N 0x06, N 12], [N 0x65, N 127], [N 0x64, N 127]]
     \<and> map statusByte
         (sent (setRegisteredParameter W ch (Str ''pitchbendrange'') (Arr [N 12]) options))
       = replicate 5 (shl32 (MIDI_CHANNEL_VOICE_MESSAGES W controlchange) 4 + (ch - 1))
     \<and> failure (setRegisteredParameter W ch (Str ''pitchbendrange'') (N 12) options) = None
     \<and> map dataBytes
         (sent (setRegisteredParameter W ch (Str ''pitchbendrange'') (N 12) options))
       = [[N 0x65, N 0], [N 0x64, N 0], [N 0x06, N 12], [N 0x65, N 127], [N 0x64, N 127]]"
  using assms
  by (simp add: setRegisteredParameter_def parameter_defs sendControlChange_time
      get_prop_default eff_defs js_defs prop_defs parse_defs Let_def failure_def sent_def
      numeral_eq_Suc)

theorem pitchbendrange_message_sequence_witness:
  "MIDI_REGISTERED_PARAMETER (WebMidi_ref 0) ''pitchbendrange'' = Some (0, 0)
   \<and> failure (setRegisteredParameter (WebMidi_ref 0) 3 (Str ''pitchbendrange'') (Arr [N 12, N 0])
        Undefined) = None
   \<and> map dataBytes
       (sent (setRegisteredParameter (WebMidi_ref 0) 3 (Str ''pitchbendrange'') (Arr [N 12, N 0])
          Undefined))
     = [[N 0x65, N 0], [N 0x64, N 0], [N 0x06, N 12], [N 0x26, N 0],
        [N 0x65, N 127], [N 0x64, N 127]]
   \<and> map statusByte
       (sent (setRegisteredParameter (WebMidi_ref 0) 3 (Str ''pitchbendrange'') (Arr [N 12])
          Undefined))
     = [178, 178, 178, 178, 178]
   \<and> map dataBytes
       (sent (setRegisteredParameter (WebMidi_ref 0) 3 (Str ''pitchbendrange'') (Arr [N 12])
          Undefined))
     = [[N 0x65, N 0], [N 0x64, N 0], [N 0x06, N 12], [N 0x65, N 127], [N 0x64, N 127]]"
proof -
  have table: "MIDI_REGISTERED_PARAMETER (WebMidi_ref 0) ''pitchbendrange'' = Some (0, 0)"
    by (simp add: ref_defs)
  have options: "Undefined \<noteq> Null"
    by simp
  show ?thesis
    using table pitchbendrange_message_sequence [OF table options, of 3]
    by (simp add: WebMidi_ref_def shl32_def numeral_eq_Suc)
qed

text \<open>
  The claim as stated fails on the call it names: with the data \<^verbatim>\<open>[12,0]\<close> the
  channel hands six messages to the output, the fourth being controller 0x26 with 0.
\<close>

theorem pitchbendrange_two_bytes_counterexample:
  "length (sent (setRegisteredParameter (WebMidi_ref 0) 1 (Str ''pitchbendrange'')
      (Arr [N 12, N 0]) Undefined)) = 6
   \<and> map dataBytes (sent (setRegisteredParameter (WebMidi_ref 0) 1 (Str ''pitchbendrange'')
      (Arr [N 12, N 0]) Undefined)) ! 3 = [N 0x26, N 0]"
  by (simp add: setRegisteredParameter_def parameter_defs sendControlChange_time
      eff_defs js_defs prop_defs parse_defs ref_defs Let_def sent_def)

text \<open>
  C2, on the call the specification names. \<^verbatim>\<open>playNote\<close> passes its options unchanged
  to \<^verbatim>\<open>sendNoteOn\<close> and \<^verbatim>\<open>sendNoteOff\<close>, and both stamp their messages with
  \<^verbatim>\<open>convertToTimestamp(options.time)\<close>: the duration is never added. With the clock at
  1000, \<^verbatim>\<open>playNote(60, {duration: 100, time: "+50"})\<close> stamps the note-on and the
  note-off with 1050 alike, where the claim has the note-off at 1150.
\<close>

theorem playNote_duration_ignored:
  "playNote (WebMidi_ref 1000) 1 (N 60) (Obj [(''duration'', N 100), (''time'', Str ''+50'')])
     = (Inr (),
        [\<lparr>statusByte = 0x90, dataBytes = [N 60, N 64], timestamp = N 1050\<rparr>,
         \<lparr>statusByte = 0x80, dataBytes = [N 60, N 64], timestamp = N 1050\<rparr>])"
  by (simp add: playNote_def sendNoteOn_def sendNoteOff_def eff_defs js_defs prop_defs
      parse_defs ref_defs shl32_def Let_def)

text \<open>
  C4, on a call that shows the defect. \<^verbatim>\<open>setRegisteredParameter\<close> passes
  \<^verbatim>\<open>this.number\<close> in the place of the \<^verbatim>\<open>time\<close> parameter of the select and set
  helpers, so on channel 1 the select and data-entry messages of
  \<^verbatim>\<open>setRegisteredParameter("pitchbendrange", [12], {time: 1000})\<close> are stamped with the
  resolution of 1, the channel number, and only the deselect pair with that of 1000.
\<close>

theorem setRegisteredParameter_timestamps_differ:
  "setRegisteredParameter (WebMidi_ref 0) 1 (Str ''pitchbendrange'') (Arr [N 12])
       (Obj [(''time'', N 1000)])
     = (Inr (),
        [\<lparr>statusByte = 0xB0, dataBytes = [N 0x65, N 0], timestamp = N 1\<rparr>,
         \<lparr>statusByte = 0xB0, dataBytes = [N 0x64, N 0], timestamp = N 1\<rparr>,
         \<lparr>statusByte = 0xB0, dataBytes = [N 0x06, N 12], timestamp = N 1\<rparr>,
         \<lparr>statusByte = 0xB0, dataBytes = [N 0x65, N 127], timestamp = N 1000\<rparr>,
         \<lparr>statusByte = 0xB0, dataBytes = [N 0x64, N 127], timestamp = N 1000\<rparr>])"
  by (simp add: setRegisteredParameter_def parameter_defs sendControlChange_time
      eff_defs js_defs prop_defs parse_defs ref_defs shl32_def Let_def)



text \<open>
  C6, as the code has it. \<^verbatim>\<open>setProgram\<close> subtracts 1 from the program immediately
  before transmission and checks no range: for every number \<open>p\<close> it hands exactly one
  program-change message with the data byte \<open>p - 1\<close> to the output and throws nothing.
  So \<^verbatim>\<open>setProgram(1)\<close> sends \<^verbatim>\<open>[0]\<close> and \<^verbatim>\<open>setProgram(128)\<close> sends \<^verbatim>\<open>[127]\<close>.
\<close>

theorem setProgram_offset:
  assumes "options \<noteq> Null"
  shows "setProgram W ch (N p) options
     = (Inr (),
        [\<lparr>statusByte = shl32 (MIDI_CHANNEL_VOICE_MESSAGES W programchange) 4 + (ch - 1),
          dataBytes = [N (p - 1)],
          timestamp = convertToTimestamp W (read_prop (default_options options) ''time'')\<rparr>])"
  using assms
  by (simp add: setProgram_def get_prop_default eff_defs js_sub_def Let_def)

theorem setProgram_offset_witness:
  "Undefined \<noteq> Null
   \<and> setProgram (WebMidi_ref 0) 1 (N 1) Undefined
       = (Inr (), [\<lparr>statusByte = 0xC0, dataBytes = [N 0], timestamp = N 0\<rparr>])
   \<and> setProgram (WebMidi_ref 0) 1 (N 128) Undefined
       = (Inr (), [\<lparr>statusByte = 0xC0, dataBytes = [N 127], timestamp = N 0\<rparr>])"
proof -
  have options: "Undefined \<noteq> Null"
    by simp
  show ?thesis
    using setProgram_offset [OF options, of "WebMidi_ref 0" 1 1]
      setProgram_offset [OF options, of "WebMidi_ref 0" 1 128]
    by (simp add: ref_defs read_prop_def shl32_def)
qed

text \<open>
  The claim as stated fails outside the documented domain: \<^verbatim>\<open>setProgram(0)\<close> and
  \<^verbatim>\<open>setProgram(129)\<close> throw no \<^verbatim>\<open>RangeError\<close>; they hand the data bytes \<^verbatim>\<open>[-1]\<close>
  and \<^verbatim>\<open>[128]\<close> to the output.
\<close>

theorem setProgram_unchecked_counterexample:
  "setProgram (WebMidi_ref 0) 1 (N 0) Undefined
     = (Inr (), [\<lparr>statusByte = 0xC0, dataBytes = [N (- 1)], timestamp = N 0\<rparr>])
   \<and> setProgram (WebMidi_ref 0) 1 (N 129) Undefined
     = (Inr (), [\<lparr>statusByte = 0xC0, dataBytes = [N 128], timestamp = N 0\<rparr>])"
  by (simp add: setProgram_def eff_defs js_sub_def ref_defs read_prop_def shl32_def Let_def)




text \<open>
  C3, as the code has it. Each phase of the parameter protocol validates its own bytes
  when it runs. For \<^verbatim>\<open>setRegisteredParameter\<close>, \<^verbatim>\<open>setNonRegisteredParameter\<close>,
  \<^verbatim>\<open>incrementRegisteredParameter\<close> and \<^verbatim>\<open>decrementRegisteredParameter\<close>, a select byte
  outside [0,127] makes the call fail with a \<^verbatim>\<open>RangeError\<close> before any message is
  handed over. A data byte outside [0,127] (of magnitude below \<open>10^21\<close>, where
  \<^verbatim>\<open>parseInt\<close> truncates) also makes the two set operations fail with a
  \<^verbatim>\<open>RangeError\<close>, but after the messages that precede the failed check: the two select
  messages when the first data byte is invalid, and these with the data-entry message of
  the first byte when the second is invalid. The deselect pair is then not sent.
\<close>

theorem parameter_bytes_validated:
  fixes a b d0 d1 :: int
  assumes "options \<noteq> Null"
  shows
    "(a < 0 \<or> 127 < a \<or> b < 0 \<or> 127 < b \<longrightarrow>
        failure_kind (setRegisteredParameter W ch (Arr [N (of_int a), N (of_int b)]) data options)
          = Some RangeError_kind
        \<and> sent (setRegisteredParameter W ch (Arr [N (of_int a), N (of_int b)]) data options) = []
        \<and> failure_kind (setNonRegisteredParameter W ch (Arr [N (of_int a), N (of_int b)]) data options)
          = Some RangeError_kind
        \<and> sent (setNonRegisteredParameter W ch (Arr [N (of_int a), N (of_int b)]) data options) = []
        \<and> failure_kind (incrementRegisteredParameter W ch (Arr [N (of_int a), N (of_int b)]) options)
          = Some RangeError_kind
        \<and> sent (incrementRegisteredParameter W ch (Arr [N (of_int a), N (of_int b)]) options) = []
        \<and> failure_kind (decrementRegisteredParameter W ch (Arr [N (of_int a), N (of_int b)]) options)
          = Some RangeError_kind
        \<and> sent (decrementRegisteredParameter W ch (Arr [N (of_int a), N (of_int b)]) options) = [])
     \<and> (0 \<le> a \<and> a \<le> 127 \<and> 0 \<le> b \<and> b \<le> 127
          \<and> \<not> (0 \<le> d0 \<and> d0 \<le> 127) \<and> \<bar>d0\<bar> < 10 ^ 21 \<longrightarrow>
        failure (setRegisteredParameter W ch (Arr [N (of_int a), N (of_int b)])
                   (Arr (N (of_int d0) # ds)) options)
          = Some (RangeError ''The msb value must be between 0 and 127.'')
        \<and> map dataBytes (sent (setRegisteredParameter W ch (Arr [N (of_int a), N (of_int b)])
                   (Arr (N (of_int d0) # ds)) options))
          = [[N 0x65, N (of_int a)], [N 0x64, N (of_int b)]]
        \<and> failure (setNonRegisteredParameter W ch (Arr [N (of_int a), N (of_int b)])
                   (Arr (N (of_int d0) # ds)) options)
          = Some (RangeError ''The msb value must be between 0 and 127.'')
        \<and> map dataBytes (sent (setNonRegisteredParameter W ch (Arr [N (of_int a), N (of_int b)])
                   (Arr (N (of_int d0) # ds)) options))
          = [[N 0x63, N (of_int a)], [N 0x62, N (of_int b)]])
     \<and> (0 \<le> a \<and> a \<le> 127 \<and> 0 \<le> b \<and> b \<le> 127 \<and> 0 \<le> d0 \<and> d0 \<le> 127
          \<and> \<not> (0 \<le> d1 \<and> d1 \<le> 127) \<and> \<bar>d1\<bar> < 10 ^ 21 \<longrightarrow>
        failure (setRegisteredParameter W ch (Arr [N (of_int a), N (of_int b)])
                   (Arr (N (of_int d0) # N (of_int d1) # ds)) options)
          = Some (RangeError ''The lsb value must be between 0 and 127.'')
        \<and> map dataBytes (sent (setRegisteredParameter W ch (Arr [N (of_int a), N (of_int b)])
                   (Arr (N (of_int d0) # N (of_int d1) # ds)) options))
          = [[N 0x65, N (of_int a)], [N 0x64, N (of_int b)], [N 0x06, N (of_int d0)]]
        \<and> failure (setNonRegisteredParameter W ch (Arr [N (of_int a), N (of_int b)])
                   (Arr (N (of_int d0) # N (of_int d1) # ds)) options)
          = Some (RangeError ''The lsb value must be between 0 and 127.'')
        \<and> map dataBytes (sent (setNonRegisteredParameter W ch (Arr [N (of_int a), N (of_int b)])
                   (Arr (N (of_int d0) # N (of_int d1) # ds)) options))
          = [[N 0x63, N (of_int a)], [N 0x62, N (of_int b)], [N 0x06, N (of_int d0)]])"
proof (intro conjI impI)
  assume bad: "a < 0 \<or> 127 < a \<or> b < 0 \<or> 127 < b"
  note rej = select_rejects [OF bad]
  show "failure_kind (setRegisteredParameter W ch (Arr [N (of_int a), N (of_int b)]) data options)
          = Some RangeError_kind"
    and "sent (setRegisteredParameter W ch (Arr [N (of_int a), N (of_int b)]) data options) = []"
    using assms by (simp_all add: setRegisteredParameter_def get_prop_default eff_defs rej)
  show "failure_kind (setNonRegisteredParameter W ch (Arr [N (of_int a), N (of_int b)]) data options)
          = Some RangeError_kind"
    and "sent (setNonRegisteredParameter W ch (Arr [N (of_int a), N (of_int b)]) data options) = []"
    using assms by (simp_all add: setNonRegisteredParameter_def get_prop_default eff_defs rej Let_def)
  show "failure_kind (incrementRegisteredParameter W ch (Arr [N (of_int a), N (of_int b)]) options)
          = Some RangeError_kind"
    and "sent (incrementRegisteredParameter W ch (Arr [N (of_int a), N (of_int b)]) options) = []"
    using assms by (simp_all add: incrementRegisteredParameter_def get_prop_default eff_defs rej)
  show "failure_kind (decrementRegisteredParameter W ch (Arr [N (of_int a), N (of_int b)]) options)
          = Some RangeError_kind"
    and "sent (decrementRegisteredParameter W ch (Arr [N (of_int a), N (of_int b)]) options) = []"
    using assms by (simp_all add: decrementRegisteredParameter_def get_prop_default eff_defs rej)
next
  assume h: "0 \<le> a \<and> a \<le> 127 \<and> 0 \<le> b \<and> b \<le> 127
      \<and> \<not> (0 \<le> d0 \<and> d0 \<le> 127) \<and> \<bar>d0\<bar> < 10 ^ 21"
  then have sel: "0 \<le> a" "a \<le> 127" "0 \<le> b" "b \<le> 127"
    and msb: "\<not> (0 \<le> d0 \<and> d0 \<le> 127)" "\<bar>d0\<bar> < 10 ^ 21"
    by simp_all
  note acc = select_accepts [OF sel] and rej = setCurrent_rejects_msb [OF msb]
  show "failure (setRegisteredParameter W ch (Arr [N (of_int a), N (of_int b)])
                   (Arr (N (of_int d0) # ds)) options)
          = Some (RangeError ''The msb value must be between 0 and 127.'')"
    and "map dataBytes (sent (setRegisteredParameter W ch (Arr [N (of_int a), N (of_int b)])
                   (Arr (N (of_int d0) # ds)) options))
          = [[N 0x65, N (of_int a)], [N 0x64, N (of_int b)]]"
    using assms by (simp_all add: setRegisteredParameter_def get_prop_default eff_defs acc rej)
  show "failure (setNonRegisteredParameter W ch (Arr [N (of_int a), N (of_int b)])
                   (Arr (N (of_int d0) # ds)) options)
          = Some (RangeError ''The msb value must be between 0 and 127.'')"
    and "map dataBytes (sent (setNonRegisteredParameter W ch (Arr [N (of_int a), N (of_int b)])
                   (Arr (N (of_int d0) # ds)) options))
          = [[N 0x63, N (of_int a)], [N 0x62, N (of_int b)]]"
    using assms
    by (simp_all add: setNonRegisteredParameter_def get_prop_default eff_defs acc rej Let_def
        concat_data_def)
next
  assume h: "0 \<le> a \<and> a \<le> 127 \<and> 0 \<le> b \<and> b \<le> 127 \<and> 0 \<le> d0 \<and> d0 \<le> 127
      \<and> \<not> (0 \<le> d1 \<and> d1 \<le> 127) \<and> \<bar>d1\<bar> < 10 ^ 21"
  then have sel: "0 \<le> a" "a \<le> 127" "0 \<le> b" "b \<le> 127"
    and lsb: "0 \<le> d0" "d0 \<le> 127" "\<not> (0 \<le> d1 \<and> d1 \<le> 127)" "\<bar>d1\<bar> < 10 ^ 21"
    by simp_all
  note acc = select_accepts [OF sel] and rej = setCurrent_rejects_lsb [OF lsb]
  show "failure (setRegisteredParameter W ch (Arr [N (of_int a), N (of_int b)])
                   (Arr (N (of_int d0) # N (of_int d1) # ds)) options)
          = Some (RangeError ''The lsb value must be between 0 and 127.'')"
    and "map dataBytes (sent (setRegisteredParameter W ch (Arr [N (of_int a), N (of_int b)])
                   (Arr (N (of_int d0) # N (of_int d1) # ds)) options))
          = [[N 0x65, N (of_int a)], [N 0x64, N (of_int b)], [N 0x06, N (of_int d0)]]"
    using assms by (simp_all add: setRegisteredParameter_def get_prop_default eff_defs acc rej)
  show "failure (setNonRegisteredParameter W ch (Arr [N (of_int a), N (of_int b)])
                   (Arr (N (of_int d0) # N (of_int d1) # ds)) options)
          = Some (RangeError ''The lsb value must be between 0 and 127.'')"
    and "map dataBytes (sent (setNonRegisteredParameter W ch (Arr [N (of_int a), N (of_int b)])
                   (Arr (N (of_int d0) # N (of_int d1) # ds)) options))
          = [[N 0x63, N (of_int a)], [N 0x62, N (of_int b)], [N 0x06, N (of_int d0)]]"
    using assms
    by (simp_all add: setNonRegisteredParameter_def get_prop_default eff_defs acc rej Let_def
        concat_data_def)
qed

theorem parameter_bytes_validated_witness:
  "Undefined \<noteq> Null
   \<and> failure_kind (setRegisteredParameter (WebMidi_ref 0) 1 (Arr [N 200, N 0]) (N 5) Undefined)
       = Some RangeError_kind
   \<and> sent (setRegisteredParameter (WebMidi_ref 0) 1 (Arr [N 200, N 0]) (N 5) Undefined) = []
   \<and> failure_kind (incrementRegisteredParameter (WebMidi_ref 0) 1 (Arr [N 200, N 0]) Undefined)
       = Some RangeError_kind
   \<and> sent (decrementRegisteredParameter (WebMidi_ref 0) 1 (Arr [N 200, N 0]) Undefined) = []
   \<and> failure (setRegisteredParameter (WebMidi_ref 0) 1 (Arr [N 0, N 5]) (Arr [N 200]) Undefined)
       = Some (RangeError ''The msb value must be between 0 and 127.'')
   \<and> map dataBytes
       (sent (setRegisteredParameter (WebMidi_ref 0) 1 (Arr [N 0, N 5]) (Arr [N 200]) Undefined))
       = [[N 0x65, N 0], [N 0x64, N 5]]
   \<and> failure (setNonRegisteredParameter (WebMidi_ref 0) 1 (Arr [N 1, N 8]) (Arr [N 12, N 200])
        Undefined)
       = Some (RangeError ''The lsb value must be between 0 and 127.'')
   \<and> map dataBytes
       (sent (setNonRegisteredParameter (WebMidi_ref 0) 1 (Arr [N 1, N 8]) (Arr [N 12, N 200])
          Undefined))
       = [[N 0x63, N 1], [N 0x62, N 8], [N 0x06, N 12]]"
proof -
  have options: "Undefined \<noteq> Null"
    by simp
  show ?thesis
    using
      parameter_bytes_validated [OF options, where W = "WebMidi_ref 0" and ch = 1
        and a = 200 and b = 0 and data = "N 5"]
      parameter_bytes_validated [OF options, where W = "WebMidi_ref 0" and ch = 1
        and a = 0 and b = 5 and ?d0.0 = 200 and ds = "[]"]
      parameter_bytes_validated [OF options, where W = "WebMidi_ref 0" and ch = 1
        and a = 1 and b = 8 and ?d0.0 = 12 and ?d1.0 = 200 and ds = "[]"]
    by simp
qed

text \<open>
  The claim as stated fails where a data byte is invalid: the throw comes after the
  select messages, which the output has already received.
\<close>

theorem partial_send_counterexample:
  "failure (setRegisteredParameter (WebMidi_ref 0) 1 (Str ''pitchbendrange'') (Arr [N 200])
      Undefined)
     = Some (RangeError ''The msb value must be between 0 and 127.'')
   \<and> map dataBytes (sent (setRegisteredParameter (WebMidi_ref 0) 1 (Str ''pitchbendrange'')
      (Arr [N 200]) Undefined))
     = [[N 0x65, N 0], [N 0x64, N 0]]"
  by (simp add: setRegisteredParameter_def parameter_defs sendControlChange_time
      eff_defs js_defs prop_defs parse_defs ref_defs Let_def)




text \<open>
  C9. Let the channel number \<open>ch\<close> be in 1..16 and the command nibbles of the table in
  8..15. Then every message that a message-building method hands to the output has the
  status byte \<^verbatim>\<open>(nibble << 4) | (ch - 1)\<close> for a command family of that method: its low
  nibble is \<open>ch - 1\<close>, its high nibble is the family's nibble, and it lies in [128,255].
\<close>

theorem status_byte_invariant:
  assumes "1 \<le> ch" and "ch \<le> 16"
    and "\<forall>c. 8 \<le> MIDI_CHANNEL_VOICE_MESSAGES W c \<and> MIDI_CHANNEL_VOICE_MESSAGES W c \<le> 15"
  shows "\<forall>m \<in> set (emitted W ch op).
     (\<exists>c \<in> families op.
        statusByte m = or (push_bit 4 (MIDI_CHANNEL_VOICE_MESSAGES W c)) (ch - 1)
        \<and> drop_bit 4 (statusByte m) = MIDI_CHANNEL_VOICE_MESSAGES W c)
     \<and> and (statusByte m) 0xF = ch - 1
     \<and> 128 \<le> statusByte m \<and> statusByte m \<le> 255"
proof
  fix m
  assume "m \<in> set (emitted W ch op)"
  then have "on_channel W ch (families op) m"
    using emitted_status [of W ch op] by (simp add: list_all_iff)
  then obtain c where c: "c \<in> families op"
    and m: "statusByte m = shl32 (MIDI_CHANNEL_VOICE_MESSAGES W c) 4 + (ch - 1)"
    by (auto simp add: on_channel_def)
  have nibble: "8 \<le> MIDI_CHANNEL_VOICE_MESSAGES W c" "MIDI_CHANNEL_VOICE_MESSAGES W c \<le> 15"
    using assms(3) by simp_all
  note arith = status_byte_arithmetic [OF assms(1,2) nibble]
  have "statusByte m = or (push_bit 4 (MIDI_CHANNEL_VOICE_MESSAGES W c)) (ch - 1)"
    and "drop_bit 4 (statusByte m) = MIDI_CHANNEL_VOICE_MESSAGES W c"
    and low: "and (statusByte m) 0xF = ch - 1"
    and range: "128 \<le> statusByte m" "statusByte m \<le> 255"
    unfolding m by (fact arith)+
  with c show "(\<exists>c \<in> families op.
        statusByte m = or (push_bit 4 (MIDI_CHANNEL_VOICE_MESSAGES W c)) (ch - 1)
        \<and> drop_bit 4 (statusByte m) = MIDI_CHANNEL_VOICE_MESSAGES W c)
     \<and> and (statusByte m) 0xF = ch - 1
     \<and> 128 \<le> statusByte m \<and> statusByte m \<le> 255"
    by blast
qed

theorem status_byte_invariant_witness:
  "1 \<le> (3::int) \<and> (3::int) \<le> 16
   \<and> (\<forall>c. 8 \<le> MIDI_CHANNEL_VOICE_MESSAGES (WebMidi_ref 0) c
          \<and> MIDI_CHANNEL_VOICE_MESSAGES (WebMidi_ref 0) c \<le> 15)
   \<and> map statusByte (emitted (WebMidi_ref 0) 3 (PlayNote (N 60) (Obj [(''duration'', N 100)])))
       = [0x92, 0x82]
   \<and> list_all (\<lambda>m. and (statusByte m) 0xF = 3 - 1 \<and> 128 \<le> statusByte m \<and> statusByte m \<le> 255)
       (emitted (WebMidi_ref 0) 3 (PlayNote (N 60) (Obj [(''duration'', N 100)])))"
proof -
  have lower: "1 \<le> (3::int)" and upper: "(3::int) \<le> 16"
    by simp_all
  have nibbles: "\<forall>c. 8 \<le> MIDI_CHANNEL_VOICE_MESSAGES (WebMidi_ref 0) c
      \<and> MIDI_CHANNEL_VOICE_MESSAGES (WebMidi_ref 0) c \<le> 15"
  proof
    fix c
    show "8 \<le> MIDI_CHANNEL_VOICE_MESSAGES (WebMidi_ref 0) c
      \<and> MIDI_CHANNEL_VOICE_MESSAGES (WebMidi_ref 0) c \<le> 15"
      by (cases c) (simp_all add: WebMidi_ref_def)
  qed
  have run: "map statusByte
      (emitted (WebMidi_ref 0) 3 (PlayNote (N 60) (Obj [(''duration'', N 100)])))
      = [0x92, 0x82]"
    by (simp add: playNote_def sendNoteOn_def sendNoteOff_def eff_defs js_defs prop_defs
        parse_defs ref_defs shl32_def Let_def)
  have "list_all (\<lambda>m. and (statusByte m) 0xF = 3 - 1 \<and> 128 \<le> statusByte m \<and> statusByte m \<le> 255)
      (emitted (WebMidi_ref 0) 3 (PlayNote (N 60) (Obj [(''duration'', N 100)])))"
    using status_byte_invariant [OF lower upper nibbles,
        of "PlayNote (N 60) (Obj [(''duration'', N 100)])"]
    by (simp add: list_all_iff)
  with lower upper nibbles run show ?thesis
    by blast
qed

section \<open>Further properties\<close>

text \<open>
  A single control change. For every controller number \<open>c\<close> in [0,119], \<^verbatim>\<open>sendControlChange(c, v)\<close> hands
  exactly one message to the output, with the status byte of a control change on the
  channel, the data \<^verbatim>\<open>[c, v]\<close> and the resolved time of the options.
\<close>

theorem sendControlChange_message:
  fixes c :: int
  assumes "0 \<le> c" and "c \<le> 119" and "options \<noteq> Null"
  shows "sendControlChange W ch (N (of_int c)) v options
     = (Inr (),
        [\<lparr>statusByte = shl32 (MIDI_CHANNEL_VOICE_MESSAGES W controlchange) 4 + (ch - 1),
          dataBytes = [N (of_int c), v],
          timestamp = convertToTimestamp W (read_prop (default_options options) ''time'')\<rparr>])"
  using assms
  by (simp add: sendControlChange_def eff_defs get_prop_default Let_def)

theorem sendControlChange_message_witness:
  "0 \<le> (7::int) \<and> (7::int) \<le> 119 \<and> Undefined \<noteq> Null
   \<and> sendControlChange (WebMidi_ref 0) 2 (N 7) (N 100) Undefined
       = (Inr (), [\<lparr>statusByte = 0xB1, dataBytes = [N 7, N 100], timestamp = N 0\<rparr>])"
proof -
  have lower: "0 \<le> (7::int)" and upper: "(7::int) \<le> 119" and options: "Undefined \<noteq> Null"
    by simp_all
  show ?thesis
    using sendControlChange_message [OF lower upper options, of "WebMidi_ref 0" 2 "N 100"]
    by (simp add: ref_defs read_prop_def shl32_def)
qed

text \<open>
  Order of notes. \<^verbatim>\<open>sendNoteOn\<close> called without velocity options hands one note-on message per
  note that the note resolver returns, in the resolver's order, each with the note's
  number and attack velocity, all with the resolved time of the options.
\<close>

theorem sendNoteOn_order:
  assumes "options \<noteq> Null"
    and "read_prop (default_options options) ''rawVelocity'' = Undefined"
    and "read_prop (default_options options) ''velocity'' = Undefined"
    and "read_prop (default_options options) ''rawAttack'' = Undefined"
    and "read_prop (default_options options) ''attack'' = Undefined"
    and "getValidNoteArray W key (Obj [(''rawAttack'', N 64)]) = Inr ns"
  shows "sent (sendNoteOn W ch key options)
     = map (\<lambda>n. \<lparr>statusByte = shl32 (MIDI_CHANNEL_VOICE_MESSAGES W noteon) 4 + (ch - 1),
                  dataBytes = [number n, rawAttack n],
                  timestamp = convertToTimestamp W (read_prop (default_options options) ''time'')\<rparr>)
         ns"
  using assms
  by (simp add: sendNoteOn_def eff_defs get_prop_default forEach_send Let_def isNaN_def)

theorem sendNoteOn_order_witness:
  "Undefined \<noteq> Null
   \<and> read_prop (default_options Undefined) ''rawVelocity'' = Undefined
   \<and> read_prop (default_options Undefined) ''velocity'' = Undefined
   \<and> read_prop (default_options Undefined) ''rawAttack'' = Undefined
   \<and> read_prop (default_options Undefined) ''attack'' = Undefined
   \<and> getValidNoteArray (WebMidi_ref 0) (Arr [N 60, Str ''C3'']) (Obj [(''rawAttack'', N 64)])
       = Inr [\<lparr>number = N 60, rawAttack = N 64, rawRelease = N 64\<rparr>,
              \<lparr>number = N 48, rawAttack = N 64, rawRelease = N 64\<rparr>]
   \<and> sent (sendNoteOn (WebMidi_ref 0) 1 (Arr [N 60, Str ''C3'']) Undefined)
       = [\<lparr>statusByte = 0x90, dataBytes = [N 60, N 64], timestamp = N 0\<rparr>,
          \<lparr>statusByte = 0x90, dataBytes = [N 48, N 64], timestamp = N 0\<rparr>]"
proof -
  have options: "Undefined \<noteq> Null"
    by simp
  have unset: "read_prop (default_options Undefined) ''rawVelocity'' = Undefined"
    "read_prop (default_options Undefined) ''velocity'' = Undefined"
    "read_prop (default_options Undefined) ''rawAttack'' = Undefined"
    "read_prop (default_options Undefined) ''attack'' = Undefined"
    by (simp_all add: read_prop_def)
  have resolved:
    "getValidNoteArray (WebMidi_ref 0) (Arr [N 60, Str ''C3'']) (Obj [(''rawAttack'', N 64)])
       = Inr [\<lparr>number = N 60, rawAttack = N 64, rawRelease = N 64\<rparr>,
              \<lparr>number = N 48, rawAttack = N 64, rawRelease = N 64\<rparr>]"
    by (simp add: ref_defs dec_digit_def)
  show ?thesis
    using unset resolved sendNoteOn_order [OF options unset resolved, of 1]
    by (simp add: WebMidi_ref_def resolve_time_def read_prop_def shl32_def)
qed

text \<open>
  The sibling of \<^verbatim>\<open>setRegisteredParameter\<close>. \<^verbatim>\<open>incrementRegisteredParameter\<close> with select bytes in [0,127] hands five control
  changes to the output, in this order: the select pair 0x65 and 0x64 with the two bytes,
  the data increment 0x60 with 0, and the deselect pair 0x65 and 0x64 with 127; all five
  carry the resolved time of the options.
\<close>

theorem incrementRegisteredParameter_sequence:
  fixes a b :: int
  assumes "0 \<le> a" and "a \<le> 127" and "0 \<le> b" and "b \<le> 127"
  shows "map (\<lambda>m. (dataBytes m, timestamp m))
       (sent (incrementRegisteredParameter W ch (Arr [N (of_int a), N (of_int b)])
          (Obj [(''time'', t)])))
     = [([N 0x65, N (of_int a)], convertToTimestamp W t),
        ([N 0x64, N (of_int b)], convertToTimestamp W t),
        ([N 0x60, N 0], convertToTimestamp W t),
        ([N 0x65, N 127], convertToTimestamp W t),
        ([N 0x64, N 127], convertToTimestamp W t)]"
  using assms
  by (simp add: incrementRegisteredParameter_def deselectRegisteredParameter_def eff_defs
      select_accepts sendControlChange_time read_prop_def Let_def)

theorem incrementRegisteredParameter_sequence_witness:
  "0 \<le> (0::int) \<and> (0::int) \<le> 127 \<and> 0 \<le> (5::int) \<and> (5::int) \<le> 127
   \<and> map (\<lambda>m. (dataBytes m, timestamp m))
       (sent (incrementRegisteredParameter (WebMidi_ref 0) 1 (Arr [N 0, N 5])
          (Obj [(''time'', N 1000)])))
     = [([N 0x65, N 0], N 1000), ([N 0x64, N 5], N 1000), ([N 0x60, N 0], N 1000),
        ([N 0x65, N 127], N 1000), ([N 0x64, N 127], N 1000)]"
proof -
  have first: "0 \<le> (0::int)" "(0::int) \<le> 127" and second: "0 \<le> (5::int)" "(5::int) \<le> 127"
    by simp_all
  show ?thesis
    using incrementRegisteredParameter_sequence [OF first second, of "WebMidi_ref 0" 1 "N 1000"]
    by (simp add: WebMidi_ref_def resolve_time_def)
qed

text \<open>
  The two timestamp defects for every collaborator. Whatever the duration, \<^verbatim>\<open>playNote\<close>
  stamps the note-off messages with the same resolved \<^verbatim>\<open>options.time\<close> as the note-on
  messages.
\<close>

theorem playNote_shared_timestamp:
  assumes "\<not> isNaN d"
    and "getValidNoteArray W key (Obj [(''rawAttack'', N 64)]) = Inr ons"
    and "getValidNoteArray W key (Obj [(''rawRelease'', N 64)]) = Inr offs"
  shows "playNote W ch key (Obj [(''duration'', d), (''time'', t)])
     = (Inr (),
        map (\<lambda>n. \<lparr>statusByte = shl32 (MIDI_CHANNEL_VOICE_MESSAGES W noteon) 4 + (ch - 1),
                    dataBytes = [number n, rawAttack n],
                    timestamp = convertToTimestamp W t\<rparr>) ons
        @ map (\<lambda>n. \<lparr>statusByte = shl32 (MIDI_CHANNEL_VOICE_MESSAGES W noteoff) 4 + (ch - 1),
                      dataBytes = [number n, rawRelease n],
                      timestamp = convertToTimestamp W t\<rparr>) offs)"
  using assms
  by (simp add: playNote_def sendNoteOn_def sendNoteOff_def eff_defs read_prop_def
      forEach_send Let_def isNaN_def)

text \<open>
  Whatever the time option, \<^verbatim>\<open>setRegisteredParameter\<close> stamps its select and data-entry
  messages with the resolution of the channel number, and the deselect pair alone with
  that of \<^verbatim>\<open>options.time\<close>.
\<close>

theorem setRegisteredParameter_channel_as_time:
  fixes a b d0 :: int
  assumes "0 \<le> a" and "a \<le> 127" and "0 \<le> b" and "b \<le> 127"
    and "0 \<le> d0" and "d0 \<le> 127"
  shows "map (\<lambda>m. (dataBytes m, timestamp m))
       (sent (setRegisteredParameter W ch (Arr [N (of_int a), N (of_int b)]) (N (of_int d0))
          (Obj [(''time'', t)])))
     = [([N 0x65, N (of_int a)], convertToTimestamp W (N (of_int ch))),
        ([N 0x64, N (of_int b)], convertToTimestamp W (N (of_int ch))),
        ([N 0x06, N (of_int d0)], convertToTimestamp W (N (of_int ch))),
        ([N 0x65, N 127], convertToTimestamp W t),
        ([N 0x64, N 127], convertToTimestamp W t)]"
proof -
  have d0: "parseInt_num (of_int d0) = Fin (of_int d0)"
    using assms(5,6) by (intro parseInt_int) simp
  show ?thesis
    using assms
    by (simp add: setRegisteredParameter_def deselectRegisteredParameter_def
        setCurrentRegisteredParameter_def eff_defs select_accepts sendControlChange_time
        read_prop_def prop_defs isNaN_def d0 Let_def)
qed

end
